theory Spec2Isabelle
  imports Main "HOL-Library.Word" "HOL-Library.Signed_Division" "HOL-Library.Sublist"
begin

section \<open>Block devices (amazon common, block\_device.go)\<close>

text \<open>
  Go strings are byte strings (\<open>string\<close>), \<open>int64\<close> is \<open>64 word\<close> read through
  \<open>sint\<close>, and a pointer field that may be nil (\<open>*bool\<close>, \<open>*string\<close>, \<open>*int64\<close>)
  is an \<open>option\<close>: \<open>aws.String s\<close> is \<open>Some s\<close>.
\<close>

type_synonym int64 = "64 word"

record BlockDevice =
  DeleteOnTermination :: bool
  DeviceName :: string
  Encrypted :: "bool option"
  IOPS :: int64
  NoDevice :: bool
  SnapshotId :: string
  VirtualName :: string
  VolumeType :: string
  VolumeSize :: int64
  KmsKeyId :: string
  OmitFromArtifact :: bool

record BlockDevices =
  AMIMappings :: "BlockDevice list"
  LaunchMappings :: "BlockDevice list"

text \<open>The request shapes of the EC2 SDK that \<open>buildBlockDevices\<close> fills in; every field is a pointer.\<close>

record ec2_EbsBlockDevice =
  ebs_DeleteOnTermination :: "bool option"
  ebs_Encrypted :: "bool option"
  ebs_Iops :: "int64 option"
  ebs_KmsKeyId :: "string option"
  ebs_SnapshotId :: "string option"
  ebs_VolumeSize :: "int64 option"
  ebs_VolumeType :: "string option"

record ec2_BlockDeviceMapping =
  bdm_DeviceName :: "string option"
  bdm_Ebs :: "ec2_EbsBlockDevice option"
  bdm_NoDevice :: "string option"
  bdm_VirtualName :: "string option"

text \<open>The persistent branch of the loop body (lines 64--91): the EBS request of one device.\<close>

definition buildEbs :: "BlockDevice \<Rightarrow> ec2_EbsBlockDevice" where
  "buildEbs blockDevice =
    (let ebs0 = \<lparr> ebs_DeleteOnTermination = Some (DeleteOnTermination blockDevice),
                  ebs_Encrypted = None, ebs_Iops = None, ebs_KmsKeyId = None,
                  ebs_SnapshotId = None, ebs_VolumeSize = None, ebs_VolumeType = None \<rparr>;
         ebs1 = (if VolumeType blockDevice \<noteq> ''''
                 then ebs0\<lparr> ebs_VolumeType := Some (VolumeType blockDevice) \<rparr> else ebs0);
         ebs2 = (if 0 < sint (VolumeSize blockDevice)
                 then ebs1\<lparr> ebs_VolumeSize := Some (VolumeSize blockDevice) \<rparr> else ebs1);
         ebs3 = (if VolumeType blockDevice = ''io1''
                 then ebs2\<lparr> ebs_Iops := Some (IOPS blockDevice) \<rparr> else ebs2);
         ebs4 = (if SnapshotId blockDevice \<noteq> ''''
                 then ebs3\<lparr> ebs_SnapshotId := Some (SnapshotId blockDevice) \<rparr> else ebs3);
         ebs5 = ebs4\<lparr> ebs_Encrypted := Encrypted blockDevice \<rparr>;
         ebs6 = (if KmsKeyId blockDevice \<noteq> ''''
                 then ebs5\<lparr> ebs_KmsKeyId := Some (KmsKeyId blockDevice) \<rparr> else ebs5)
     in ebs6)"

text \<open>The loop body (lines 53--92): the mapping built for one device.\<close>

definition buildMapping :: "BlockDevice \<Rightarrow> ec2_BlockDeviceMapping" where
  "buildMapping blockDevice =
    (let mapping = \<lparr> bdm_DeviceName = Some (DeviceName blockDevice), bdm_Ebs = None,
                     bdm_NoDevice = None, bdm_VirtualName = None \<rparr>
     in if NoDevice blockDevice then mapping\<lparr> bdm_NoDevice := Some '''' \<rparr>
        else if VirtualName blockDevice \<noteq> '''' then
          (if prefix ''ephemeral'' (VirtualName blockDevice)
           then mapping\<lparr> bdm_VirtualName := Some (VirtualName blockDevice) \<rparr>
           else mapping)
        else mapping\<lparr> bdm_Ebs := Some (buildEbs blockDevice) \<rparr>)"

text \<open>The \<open>for ... range b\<close> loop, appending to the slice \<open>blockDevices\<close>.\<close>

fun buildBlockDevices_loop ::
  "ec2_BlockDeviceMapping list \<Rightarrow> BlockDevice list \<Rightarrow> ec2_BlockDeviceMapping list" where
  "buildBlockDevices_loop blockDevices [] = blockDevices"
| "buildBlockDevices_loop blockDevices (blockDevice # b) =
     buildBlockDevices_loop (blockDevices @ [buildMapping blockDevice]) b"

definition buildBlockDevices :: "BlockDevice list \<Rightarrow> ec2_BlockDeviceMapping list" where
  "buildBlockDevices b = buildBlockDevices_loop [] b"

text \<open>
  \<open>BlockDevice.Prepare\<close> returns a single \<open>error\<close> (nil is \<open>None\<close>), leaving at the
  first rule that fails.
\<close>

definition BlockDevice_Prepare :: "BlockDevice \<Rightarrow> string option" where
  "BlockDevice_Prepare b =
    (if DeviceName b = '''' then
       Some (''The `device_name` must be specified '' @
             ''for every device in the block device mapping.'')
     else if KmsKeyId b \<noteq> '''' \<and> Encrypted b \<noteq> None \<and> Encrypted b = Some False then
       Some (''The device '' @ DeviceName b @ '', must also have `encrypted: '' @
             ''true` when setting a kms_key_id.'')
     else None)"

fun BlockDevices_Prepare_loop :: "string \<Rightarrow> string list \<Rightarrow> BlockDevice list \<Rightarrow> string list" where
  "BlockDevices_Prepare_loop pfx errs [] = errs"
| "BlockDevices_Prepare_loop pfx errs (d # ds) =
     BlockDevices_Prepare_loop pfx
       (case BlockDevice_Prepare d of
          Some err \<Rightarrow> errs @ [pfx @ err]
        | None \<Rightarrow> errs) ds"

definition BlockDevices_Prepare :: "BlockDevices \<Rightarrow> string list" where
  "BlockDevices_Prepare b =
    (let errs = BlockDevices_Prepare_loop ''AMIMapping: '' [] (AMIMappings b);
         errs = BlockDevices_Prepare_loop ''LaunchMapping: '' errs (LaunchMappings b)
     in errs)"

section \<open>Run configuration (amazon common, run\_config.go)\<close>

text \<open>
  A filter map of Go type \<open>map[*string]*string\<close> is keyed by pointers, so it is the list of
  its entries; only its length is read here.
\<close>

record AmiFilterOptions =
  ami_Filters :: "(string \<times> string) list"
  ami_Owners :: "string list"
  ami_MostRecent :: bool

definition AmiFilterOptions_Empty :: "AmiFilterOptions \<Rightarrow> bool" where
  "AmiFilterOptions_Empty d \<longleftrightarrow> length (ami_Owners d) = 0 \<and> length (ami_Filters d) = 0"

definition AmiFilterOptions_NoOwner :: "AmiFilterOptions \<Rightarrow> bool" where
  "AmiFilterOptions_NoOwner d \<longleftrightarrow> length (ami_Owners d) = 0"

record SubnetFilterOptions =
  subnet_Filters :: "(string \<times> string) list"
  subnet_MostFree :: bool
  subnet_Random :: bool

record VpcFilterOptions =
  vpc_Filters :: "(string \<times> string) list"

record SecurityGroupFilterOptions =
  sg_Filters :: "(string \<times> string) list"

text \<open>
  The communicator configuration is declared in another package; these are the fields
  \<open>RunConfig.Prepare\<close> reads or writes, and the record's extension stands for all the others.
\<close>

record communicator_Config =
  Type :: string
  SSHKeyPairName :: string
  SSHTemporaryKeyPairName :: string
  SSHPrivateKeyFile :: string
  SSHPassword :: string
  SSHInterface :: string
  SSHAgentAuth :: bool
  WinRMPassword :: string

text \<open>A map that may be nil is an \<open>option\<close>; \<open>time.Duration\<close> is an \<open>int64\<close> of nanoseconds.\<close>

record 'a RunConfig =
  AssociatePublicIpAddress :: bool
  AvailabilityZone :: string
  BlockDurationMinutes :: int64
  DisableStopInstance :: bool
  EbsOptimized :: bool
  EnableT2Unlimited :: bool
  IamInstanceProfile :: string
  InstanceInitiatedShutdownBehavior :: string
  InstanceType :: string
  SecurityGroupFilter :: SecurityGroupFilterOptions
  RunTags :: "(string \<rightharpoonup> string) option"
  SecurityGroupId :: string
  SecurityGroupIds :: "string list"
  SourceAmi :: string
  SourceAmiFilter :: AmiFilterOptions
  SpotInstanceTypes :: "string list"
  SpotPrice :: string
  SpotPriceAutoProduct :: string
  SpotTags :: "(string \<rightharpoonup> string) option"
  SubnetFilter :: SubnetFilterOptions
  SubnetId :: string
  TemporaryKeyPairName :: string
  TemporarySGSourceCidrs :: "string list"
  UserData :: string
  UserDataFile :: string
  VpcFilter :: VpcFilterOptions
  VpcId :: string
  WindowsPasswordTimeout :: int64
  Comm :: "'a communicator_Config_scheme"

text \<open>
  What \<open>RunConfig.Prepare\<close> calls outside this file: the UUID generator, the communicator's own
  \<open>Prepare\<close> (it may rewrite the communicator and returns its errors), \<open>os.Stat\<close> and
  \<open>net.ParseCIDR\<close> (each \<open>Some\<close> of the error's text when it fails).
\<close>

record 'a env =
  uuid_TimeOrderedUUID :: string
  Comm_Prepare :: "'a communicator_Config_scheme \<Rightarrow> 'a communicator_Config_scheme \<times> string list"
  os_Stat :: "string \<Rightarrow> string option"
  net_ParseCIDR :: "string \<Rightarrow> string option"

text \<open>\<open>regexp.MustCompile("^(stop|terminate)$").MatchString\<close>: the anchors are those of the whole text.\<close>

definition reShutdownBehavior_MatchString :: "string \<Rightarrow> bool" where
  "reShutdownBehavior_MatchString s \<longleftrightarrow> s = ''stop'' \<or> s = ''terminate''"

text \<open>\<open>strings.Index\<close>: the index of the first occurrence of \<open>sub\<close>, or \<open>-1\<close>.\<close>

fun strings_Index :: "string \<Rightarrow> string \<Rightarrow> int" where
  "strings_Index [] sub = (if sub = [] then 0 else - 1)"
| "strings_Index (x # xs) sub =
     (if prefix sub (x # xs) then 0
      else (let r = strings_Index xs sub in if r = - 1 then - 1 else r + 1))"

text \<open>Lines 255--259: the temporary key pair name.\<close>

definition default_temporary_key_pair :: "'a env \<Rightarrow> 'a RunConfig \<Rightarrow> 'a RunConfig" where
  "default_temporary_key_pair e c =
    (if SSHKeyPairName (Comm c) = '''' \<and> SSHTemporaryKeyPairName (Comm c) = '''' \<and>
        SSHPrivateKeyFile (Comm c) = '''' \<and> SSHPassword (Comm c) = ''''
     then c\<lparr> Comm := (Comm c)\<lparr> SSHTemporaryKeyPairName := ''packer_'' @ uuid_TimeOrderedUUID e \<rparr> \<rparr>
     else c)"

text \<open>Lines 261--263: twenty minutes, in nanoseconds.\<close>

definition default_windows_password_timeout :: "'a RunConfig \<Rightarrow> 'a RunConfig" where
  "default_windows_password_timeout c =
    (if WindowsPasswordTimeout c = 0
     then c\<lparr> WindowsPasswordTimeout := 20 * 60000000000 \<rparr> else c)"

text \<open>Lines 265--267.\<close>

definition default_run_tags :: "'a RunConfig \<Rightarrow> 'a RunConfig" where
  "default_run_tags c = (if RunTags c = None then c\<lparr> RunTags := Some Map.empty \<rparr> else c)"

text \<open>Lines 273--279.\<close>

definition validate_ssh_interface :: "'a RunConfig \<Rightarrow> string list \<Rightarrow> string list" where
  "validate_ssh_interface c errs =
    (if SSHInterface (Comm c) \<noteq> ''public_ip'' \<and>
        SSHInterface (Comm c) \<noteq> ''private_ip'' \<and>
        SSHInterface (Comm c) \<noteq> ''public_dns'' \<and>
        SSHInterface (Comm c) \<noteq> ''private_dns'' \<and>
        SSHInterface (Comm c) \<noteq> ''''
     then errs @ [''Unknown interface type: '' @ SSHInterface (Comm c)]
     else errs)"

text \<open>Lines 281--287.\<close>

definition validate_ssh_keypair :: "'a RunConfig \<Rightarrow> string list \<Rightarrow> string list" where
  "validate_ssh_keypair c errs =
    (if SSHKeyPairName (Comm c) \<noteq> '''' then
       (if Type (Comm c) = ''winrm'' \<and> WinRMPassword (Comm c) = '''' \<and>
           SSHPrivateKeyFile (Comm c) = ''''
        then errs @ [''ssh_private_key_file must be provided to retrieve the winrm password when using ssh_keypair_name.'']
        else if SSHPrivateKeyFile (Comm c) = '''' \<and> \<not> SSHAgentAuth (Comm c)
        then errs @ [''ssh_private_key_file must be provided or ssh_agent_auth enabled when ssh_keypair_name is specified.'']
        else errs)
     else errs)"

text \<open>Lines 289--291.\<close>

definition validate_source_ami :: "'a RunConfig \<Rightarrow> string list \<Rightarrow> string list" where
  "validate_source_ami c errs =
    (if SourceAmi c = '''' \<and> AmiFilterOptions_Empty (SourceAmiFilter c)
     then errs @ [''A source_ami or source_ami_filter must be specified'']
     else errs)"

text \<open>Lines 293--295.\<close>

definition validate_source_ami_owner :: "'a RunConfig \<Rightarrow> string list \<Rightarrow> string list" where
  "validate_source_ami_owner c errs =
    (if SourceAmi c = '''' \<and> AmiFilterOptions_NoOwner (SourceAmiFilter c)
     then errs @ [''For security reasons, your source AMI filter must declare an owner.'']
     else errs)"

text \<open>Lines 297--300.\<close>

definition validate_instance_type_given :: "'a RunConfig \<Rightarrow> string list \<Rightarrow> string list" where
  "validate_instance_type_given c errs =
    (if InstanceType c = '''' \<and> length (SpotInstanceTypes c) = 0
     then errs @ [''either instance_type or '' @ ''spot_instance_types must be specified'']
     else errs)"

text \<open>Lines 302--305.\<close>

definition validate_instance_type_once :: "'a RunConfig \<Rightarrow> string list \<Rightarrow> string list" where
  "validate_instance_type_once c errs =
    (if InstanceType c \<noteq> '''' \<and> length (SpotInstanceTypes c) > 0
     then errs @ [''either instance_type or '' @ ''spot_instance_types must be specified, not both'']
     else errs)"

text \<open>Lines 307--310: Go's \<open>%\<close> truncates towards zero, as \<open>smod\<close> does.\<close>

definition validate_block_duration :: "'a RunConfig \<Rightarrow> string list \<Rightarrow> string list" where
  "validate_block_duration c errs =
    (if sint (BlockDurationMinutes c) smod 60 \<noteq> 0
     then errs @ [''block_duration_minutes must be multiple of 60'']
     else errs)"

text \<open>Lines 312--317.\<close>

definition validate_spot_price_auto :: "'a RunConfig \<Rightarrow> string list \<Rightarrow> string list" where
  "validate_spot_price_auto c errs =
    (if SpotPrice c = ''auto'' then
       (if SpotPriceAutoProduct c = ''''
        then errs @ [''spot_price_auto_product must be specified when spot_price is auto'']
        else errs)
     else errs)"

text \<open>Lines 319--324.\<close>

definition validate_spot_price_auto_product :: "'a RunConfig \<Rightarrow> string list \<Rightarrow> string list" where
  "validate_spot_price_auto_product c errs =
    (if SpotPriceAutoProduct c \<noteq> '''' then
       (if SpotPrice c \<noteq> ''auto''
        then errs @ [''spot_price should be set to auto when spot_price_auto_product is specified'']
        else errs)
     else errs)"

text \<open>Lines 326--331.\<close>

definition validate_spot_tags :: "'a RunConfig \<Rightarrow> string list \<Rightarrow> string list" where
  "validate_spot_tags c errs =
    (if SpotTags c \<noteq> None then
       (if SpotPrice c = '''' \<or> SpotPrice c = ''0''
        then errs @ [''spot_tags should not be set when not requesting a spot instance'']
        else errs)
     else errs)"

text \<open>Lines 333--339.\<close>

definition validate_user_data :: "'a env \<Rightarrow> 'a RunConfig \<Rightarrow> string list \<Rightarrow> string list" where
  "validate_user_data e c errs =
    (if UserData c \<noteq> '''' \<and> UserDataFile c \<noteq> ''''
     then errs @ [''Only one of user_data or user_data_file can be specified.'']
     else if UserDataFile c \<noteq> '''' then
       (if os_Stat e (UserDataFile c) \<noteq> None
        then errs @ [''user_data_file not found: '' @ UserDataFile c]
        else errs)
     else errs)"

text \<open>Lines 341--348: the single group id moves into the list.\<close>

definition prepare_security_group ::
  "'a RunConfig \<Rightarrow> string list \<Rightarrow> 'a RunConfig \<times> string list" where
  "prepare_security_group c errs =
    (if SecurityGroupId c \<noteq> '''' then
       (if length (SecurityGroupIds c) > 0
        then (c, errs @ [''Only one of security_group_id or security_group_ids can be specified.''])
        else (c\<lparr> SecurityGroupIds := [SecurityGroupId c], SecurityGroupId := '''' \<rparr>, errs))
     else (c, errs))"

text \<open>Lines 353--357: the loop over the CIDR blocks.\<close>

fun ParseCIDR_loop :: "'a env \<Rightarrow> string list \<Rightarrow> string list \<Rightarrow> string list" where
  "ParseCIDR_loop e [] errs = errs"
| "ParseCIDR_loop e (cidr # cidrs) errs =
     ParseCIDR_loop e cidrs
       (case net_ParseCIDR e cidr of
          Some err \<Rightarrow>
            errs @ [''Error parsing CIDR in temporary_security_group_source_cidrs: '' @ err]
        | None \<Rightarrow> errs)"

text \<open>Lines 350--358.\<close>

definition prepare_temporary_sg_source_cidrs ::
  "'a env \<Rightarrow> 'a RunConfig \<Rightarrow> string list \<Rightarrow> 'a RunConfig \<times> string list" where
  "prepare_temporary_sg_source_cidrs e c errs =
    (if length (TemporarySGSourceCidrs c) = 0
     then (c\<lparr> TemporarySGSourceCidrs := [''0.0.0.0/0''] \<rparr>, errs)
     else (c, ParseCIDR_loop e (TemporarySGSourceCidrs c) errs))"

text \<open>Lines 360--364.\<close>

definition prepare_shutdown_behavior ::
  "'a RunConfig \<Rightarrow> string list \<Rightarrow> 'a RunConfig \<times> string list" where
  "prepare_shutdown_behavior c errs =
    (if InstanceInitiatedShutdownBehavior c = ''''
     then (c\<lparr> InstanceInitiatedShutdownBehavior := ''stop'' \<rparr>, errs)
     else if \<not> reShutdownBehavior_MatchString (InstanceInitiatedShutdownBehavior c)
     then (c, errs @ [''shutdown_behavior only accepts 'stop' or 'terminate' values.''])
     else (c, errs))"

text \<open>Lines 366--376.\<close>

definition validate_t2_unlimited :: "'a RunConfig \<Rightarrow> string list \<Rightarrow> string list" where
  "validate_t2_unlimited c errs =
    (if EnableT2Unlimited c then
       (let errs1 = (if SpotPrice c \<noteq> ''''
                     then errs @ [''Error: T2 Unlimited cannot be used in conjuction with Spot Instances'']
                     else errs);
            firstDotIndex = strings_Index (InstanceType c) ''.''
        in if firstDotIndex = - 1
           then errs1 @ [''Error determining main Instance Type from: '' @ InstanceType c]
           else if take (nat firstDotIndex) (InstanceType c) \<noteq> ''t2''
           then errs1 @ [''Error: T2 Unlimited enabled with a non-T2 Instance Type: '' @ InstanceType c]
           else errs1)
     else errs)"

text \<open>
  \<open>RunConfig.Prepare\<close>: the receiver is updated in place, so the model returns the new
  configuration together with the error list. The blocks run in the source's order.
\<close>

definition RunConfig_Prepare :: "'a env \<Rightarrow> 'a RunConfig \<Rightarrow> 'a RunConfig \<times> string list" where
  "RunConfig_Prepare e c0 =
    (let c1 = default_temporary_key_pair e c0;
         c2 = default_windows_password_timeout c1;
         c3 = default_run_tags c2;
         (comm, errs0) = Comm_Prepare e (Comm c3);
         c4 = c3\<lparr> Comm := comm \<rparr>;
         errs1 = validate_ssh_interface c4 errs0;
         errs2 = validate_ssh_keypair c4 errs1;
         errs3 = validate_source_ami c4 errs2;
         errs4 = validate_source_ami_owner c4 errs3;
         errs5 = validate_instance_type_given c4 errs4;
         errs6 = validate_instance_type_once c4 errs5;
         errs7 = validate_block_duration c4 errs6;
         errs8 = validate_spot_price_auto c4 errs7;
         errs9 = validate_spot_price_auto_product c4 errs8;
         errs10 = validate_spot_tags c4 errs9;
         errs11 = validate_user_data e c4 errs10;
         (c5, errs12) = prepare_security_group c4 errs11;
         (c6, errs13) = prepare_temporary_sg_source_cidrs e c5 errs12;
         (c7, errs14) = prepare_shutdown_behavior c6 errs13;
         errs15 = validate_t2_unlimited c7 errs14
     in (c7, errs15))"

definition IsSpotInstance :: "'a RunConfig \<Rightarrow> bool" where
  "IsSpotInstance c \<longleftrightarrow> SpotPrice c \<noteq> '''' \<and> SpotPrice c \<noteq> ''0''"

section \<open>Shutdown configuration (vmware common, shutdown\_config.go)\<close>

record ShutdownConfig =
  ShutdownCommand :: string
  RawShutdownTimeout :: string
  ShutdownTimeout :: int64

text \<open>
  \<open>time.ParseDuration\<close> is the standard library's: \<open>Inl\<close> of the error's text, or \<open>Inr\<close> of
  the duration. On an error Go returns the zero duration beside it, which is what is stored.
\<close>

definition ShutdownConfig_Prepare ::
  "(string \<Rightarrow> string + int64) \<Rightarrow> ShutdownConfig \<Rightarrow> ShutdownConfig \<times> string list" where
  "ShutdownConfig_Prepare time_ParseDuration c0 =
    (let c1 = (if RawShutdownTimeout c0 = ''''
               then c0\<lparr> RawShutdownTimeout := ''5m'' \<rparr> else c0);
         errs = []
     in case time_ParseDuration (RawShutdownTimeout c1) of
          Inl err \<Rightarrow> (c1\<lparr> ShutdownTimeout := 0 \<rparr>,
                      errs @ [''Failed parsing shutdown_timeout: '' @ err])
        | Inr d \<Rightarrow> (c1\<lparr> ShutdownTimeout := d \<rparr>, errs))"

section \<open>VirtualBox OVF builder (virtualbox/ovf/config.go)\<close>

text \<open>
  The builder's own fields; \<open>embedded\<close> holds the squashed sub-configurations (PackerConfig,
  HTTPConfig, ..., GuestAdditionsConfig), which are declared in other packages.
\<close>

record 'e ovf_Config =
  embedded :: 'e
  Checksum :: string
  ChecksumType :: string
  GuestAdditionsMode :: string
  GuestAdditionsPath :: string
  GuestAdditionsInterface :: string
  GuestAdditionsSHA256 :: string
  GuestAdditionsURL :: string
  ImportFlags :: "string list"
  ImportOpts :: string
  SourcePath :: string
  TargetPath :: string
  VMName :: string
  KeepRegistered :: bool
  SkipExport :: bool

text \<open>
  What \<open>NewConfig\<close> calls outside its file: the decoder (\<open>Inl\<close> of its error), the thirteen
  \<open>Prepare\<close> methods of the embedded sub-configurations (run in the source's order, giving the
  error list of each call), the two embedded fields it reads, the start time, the standard
  library's \<open>strings.ToLower\<close> and \<open>os.Stat\<close>, and the three mode constants.
\<close>

record ('r, 'e) ovf_env =
  config_Decode :: "'r \<Rightarrow> string + 'e ovf_Config"
  embedded_Prepare :: "'e \<Rightarrow> 'e \<times> string list list"
  PackerBuildName :: "'e \<Rightarrow> string"
  embedded_ShutdownCommand :: "'e \<Rightarrow> string"
  InitTime_Unix :: int
  strings_ToLower :: "string \<Rightarrow> string"
  ovf_os_Stat :: "string \<Rightarrow> string option"
  GuestAdditionsModeDisable :: string
  GuestAdditionsModeAttach :: string
  GuestAdditionsModeUpload :: string

text \<open>
  A \<open>*packer.MultiError\<close> is a pointer (\<open>None\<close> is nil) into a store that holds the
  \<open>Errors\<close> slice of every allocated object.
\<close>

record MultiError_store =
  next_addr :: nat
  Errors :: "nat \<Rightarrow> string list"

definition new_MultiError :: "MultiError_store \<Rightarrow> MultiError_store \<times> nat" where
  "new_MultiError h =
    (h\<lparr> next_addr := Suc (next_addr h), Errors := (Errors h)(next_addr h := []) \<rparr>, next_addr h)"

text \<open>
  Modelled from the spec: \<open>packer.MultiErrorAppend\<close>, whose file (packer/multi\_error.go) is
  not among the sources. The spec describes the accumulation as going "via mutable pointer
  passed through many functions" and the aggregate as one ordered collection: the call appends
  the given errors to the object its first argument points to, allocating one when the
  pointer is nil, and returns that pointer.
\<close>

definition MultiErrorAppend ::
  "MultiError_store \<Rightarrow> nat option \<Rightarrow> string list \<Rightarrow> MultiError_store \<times> nat option" where
  "MultiErrorAppend h err errs =
    (let (h1, p) = (case err of None \<Rightarrow> new_MultiError h | Some q \<Rightarrow> (h, q));
         h2 = h1\<lparr> Errors := (Errors h1)(p := Errors h1 p @ errs) \<rparr>
     in (h2, Some p))"

text \<open>\<open>errs = packer.MultiErrorAppend(errs, x.Prepare(&c.ctx)...)\<close>, once per sub-configuration.\<close>

fun MultiErrorAppend_each ::
  "MultiError_store \<Rightarrow> nat option \<Rightarrow> string list list \<Rightarrow> MultiError_store \<times> nat option" where
  "MultiErrorAppend_each h errs [] = (h, errs)"
| "MultiErrorAppend_each h errs (es # ess) =
     (let (h1, errs1) = MultiErrorAppend h errs es in MultiErrorAppend_each h1 errs1 ess)"

text \<open>What the verb \<open>%d\<close> prints: the decimal digits, least significant first into \<open>acc\<close>.\<close>

definition digit_char :: "nat \<Rightarrow> char" where
  "digit_char d = ''0123456789'' ! d"

function fmt_digits :: "nat \<Rightarrow> string \<Rightarrow> string" where
  "fmt_digits n acc =
    (let acc1 = digit_char (n mod 10) # acc
     in if n div 10 = 0 then acc1 else fmt_digits (n div 10) acc1)"
  by pat_completeness auto
termination
  by (relation "measure fst") auto

declare fmt_digits.simps [simp del]

definition fmt_d :: "int \<Rightarrow> string" where
  "fmt_d i = (if i < 0 then CHR ''-'' # fmt_digits (nat (- i)) [] else fmt_digits (nat i) [])"

text \<open>The \<open>for ... range validModes\<close> loop with its \<open>break\<close>.\<close>

fun validMode_loop :: "bool \<Rightarrow> string \<Rightarrow> string list \<Rightarrow> bool" where
  "validMode_loop validMode m [] = validMode"
| "validMode_loop validMode m (mode # modes) =
     (if m = mode then True else validMode_loop validMode m modes)"

text \<open>\<open>%v\<close> of a slice of strings: the elements between brackets, separated by spaces.\<close>

fun join_spaces :: "string list \<Rightarrow> string" where
  "join_spaces [] = ''''"
| "join_spaces [x] = x"
| "join_spaces (x # y # ys) = x @ '' '' @ join_spaces (y # ys)"

datatype error = DecodeError string | MultiError "string list"

text \<open>Lines 72--89: the defaults.\<close>

definition NewConfig_defaults :: "('r, 'e) ovf_env \<Rightarrow> 'e ovf_Config \<Rightarrow> 'e ovf_Config" where
  "NewConfig_defaults v c0 =
    (let c1 = (if GuestAdditionsMode c0 = '''' then c0\<lparr> GuestAdditionsMode := ''upload'' \<rparr> else c0);
         c2 = (if GuestAdditionsPath c1 = ''''
               then c1\<lparr> GuestAdditionsPath := ''VBoxGuestAdditions.iso'' \<rparr> else c1);
         c3 = (if GuestAdditionsInterface c2 = ''''
               then c2\<lparr> GuestAdditionsInterface := ''ide'' \<rparr> else c2);
         c4 = (if VMName c3 = ''''
               then c3\<lparr> VMName := ''packer-'' @ PackerBuildName v (embedded c3) @ ''-'' @
                                    fmt_d (InitTime_Unix v) \<rparr>
               else c3)
     in c4)"

text \<open>
  Lines 109--116: the two checks of \<open>source_path\<close>. The second call drops the pointer that
  \<open>MultiErrorAppend\<close> returns and goes on with \<open>errs\<close>; the store is threaded through it all
  the same.
\<close>

definition check_source_path ::
  "('r, 'e) ovf_env \<Rightarrow> 'e ovf_Config \<Rightarrow> MultiError_store \<Rightarrow> nat option \<Rightarrow>
   MultiError_store \<times> nat option" where
  "check_source_path v c h1 errs1 =
    (let (h2, errs2) = (if SourcePath c = ''''
                        then MultiErrorAppend h1 errs1 [''source_path is required'']
                        else (h1, errs1));
         h3 = (case ovf_os_Stat v (SourcePath c) of
                 Some err \<Rightarrow>
                   fst (MultiErrorAppend h2 errs2
                     [''Source file '' @ [CHR 0x27] @ SourcePath c @ [CHR 0x27] @
                      '' needs to exist at time of config validation! '' @ err])
               | None \<Rightarrow> h2)
     in (h3, errs2))"

text \<open>Lines 118--136: the guest additions mode must be one of the three known ones.\<close>

definition check_guest_additions_mode ::
  "('r, 'e) ovf_env \<Rightarrow> 'e ovf_Config \<Rightarrow> MultiError_store \<Rightarrow> nat option \<Rightarrow>
   MultiError_store \<times> nat option" where
  "check_guest_additions_mode v c h errs =
    (let validModes = [GuestAdditionsModeDisable v, GuestAdditionsModeAttach v,
                       GuestAdditionsModeUpload v];
         validMode = validMode_loop False (GuestAdditionsMode c) validModes
     in if \<not> validMode
        then MultiErrorAppend h errs
               [''guest_additions_mode is invalid. Must be one of: ['' @
                join_spaces validModes @ '']'']
        else (h, errs))"

text \<open>Lines 153--158: the import options become import flags.\<close>

definition import_opts_to_flags :: "'e ovf_Config \<Rightarrow> 'e ovf_Config" where
  "import_opts_to_flags c =
    (if ImportOpts c \<noteq> ''''
     then c\<lparr> ImportFlags := ImportFlags c @ [''--options'', ImportOpts c] \<rparr>
     else c)"

text \<open>
  \<open>NewConfig\<close> returns the configuration (nil on failure), the warnings and the error.
\<close>

definition NewConfig ::
  "('r, 'e) ovf_env \<Rightarrow> 'r \<Rightarrow> 'e ovf_Config option \<times> string list \<times> error option" where
  "NewConfig v raws =
    (case config_Decode v raws of
       Inl err \<Rightarrow> (None, [], Some (DecodeError err))
     | Inr c0 \<Rightarrow>
        (let c4 = NewConfig_defaults v c0;
             h0 = \<lparr> next_addr = 0, Errors = (\<lambda>_. []) \<rparr>;
             errs0 = None;
             (emb, ess) = embedded_Prepare v (embedded c4);
             c5 = c4\<lparr> embedded := emb \<rparr>;
             (h1, errs1) = MultiErrorAppend_each h0 errs0 ess;
             c6 = c5\<lparr> ChecksumType := strings_ToLower v (ChecksumType c5) \<rparr>;
             c7 = c6\<lparr> Checksum := strings_ToLower v (Checksum c6) \<rparr>;
             (h3, errs2) = check_source_path v c7 h1 errs1;
             (h4, errs4) = check_guest_additions_mode v c7 h3 errs2;
             c8 = (if GuestAdditionsSHA256 c7 \<noteq> ''''
                   then c7\<lparr> GuestAdditionsSHA256 := strings_ToLower v (GuestAdditionsSHA256 c7) \<rparr>
                   else c7);
             warnings = (if embedded_ShutdownCommand v (embedded c8) = ''''
                         then [] @ [''A shutdown_command was not specified. Without a shutdown command, Packer\<newline>'' @
                                    ''will forcibly halt the virtual machine, which may result in data loss.'']
                         else [])
         in case errs4 of
              Some p \<Rightarrow>
                if length (Errors h4 p) > 0 then (None, warnings, Some (MultiError (Errors h4 p)))
                else (Some (import_opts_to_flags c8), warnings, None)
            | None \<Rightarrow> (Some (import_opts_to_flags c8), warnings, None)))"

section \<open>Stages of \<open>RunConfig.Prepare\<close>\<close>

text \<open>
  The configuration as the validation rules see it (after the defaults of lines 255--267 and
  the communicator's own \<open>Prepare\<close> at line 270), and the errors that call returns.
\<close>

definition RunConfig_validated :: "'a env \<Rightarrow> 'a RunConfig \<Rightarrow> 'a RunConfig" where
  "RunConfig_validated e c0 =
    (let c3 = default_run_tags (default_windows_password_timeout (default_temporary_key_pair e c0))
     in c3\<lparr> Comm := fst (Comm_Prepare e (Comm c3)) \<rparr>)"

definition RunConfig_Comm_errors :: "'a env \<Rightarrow> 'a RunConfig \<Rightarrow> string list" where
  "RunConfig_Comm_errors e c0 = snd (Comm_Prepare e (Comm (default_temporary_key_pair e c0)))"

section \<open>Example inputs\<close>

definition dev_persistent :: BlockDevice where
  "dev_persistent =
    \<lparr> DeleteOnTermination = True, DeviceName = ''/dev/sdb'', Encrypted = Some True, IOPS = 100,
      NoDevice = False, SnapshotId = ''snap-1'', VirtualName = '''', VolumeType = ''io1'',
      VolumeSize = 8, KmsKeyId = ''key-1'', OmitFromArtifact = False \<rparr>"

definition dev_suppressed :: BlockDevice where
  "dev_suppressed = dev_persistent\<lparr> DeviceName := ''/dev/sdc'', NoDevice := True \<rparr>"

definition dev_ephemeral :: BlockDevice where
  "dev_ephemeral = dev_persistent\<lparr> DeviceName := ''/dev/sdd'', VirtualName := ''ephemeral0'' \<rparr>"

definition dev_unprefixed :: BlockDevice where
  "dev_unprefixed = dev_persistent\<lparr> DeviceName := ''/dev/sde'', VirtualName := ''foo'' \<rparr>"

definition dev_kms_unencrypted :: BlockDevice where
  "dev_kms_unencrypted = dev_persistent\<lparr> Encrypted := Some False \<rparr>"

definition dev_unnamed_kms_unencrypted :: BlockDevice where
  "dev_unnamed_kms_unencrypted = dev_persistent\<lparr> DeviceName := '''', Encrypted := Some False \<rparr>"

definition env_ok :: "unit env" where
  "env_ok =
    \<lparr> uuid_TimeOrderedUUID = ''5e1f1a2b-0000-0000-0000-000000000000'',
      Comm_Prepare = (\<lambda>k. (k, [])),
      os_Stat = (\<lambda>p. if p = ''/tmp/user-data'' then None else Some ''no such file or directory''),
      net_ParseCIDR = (\<lambda>s. if s = ''0.0.0.0/0'' \<or> s = ''10.0.0.0/8'' then None
                            else Some (''invalid CIDR address: '' @ s)) \<rparr>"

definition comm_ok :: communicator_Config where
  "comm_ok =
    \<lparr> Type = ''ssh'', SSHKeyPairName = '''', SSHTemporaryKeyPairName = '''',
      SSHPrivateKeyFile = '''', SSHPassword = '''', SSHInterface = ''public_ip'',
      SSHAgentAuth = False, WinRMPassword = '''' \<rparr>"

definition run_ok :: "unit RunConfig" where
  "run_ok =
    \<lparr> AssociatePublicIpAddress = False, AvailabilityZone = '''', BlockDurationMinutes = 0,
      DisableStopInstance = False, EbsOptimized = False, EnableT2Unlimited = False,
      IamInstanceProfile = '''', InstanceInitiatedShutdownBehavior = '''',
      InstanceType = ''t2.micro'', SecurityGroupFilter = \<lparr> sg_Filters = [] \<rparr>,
      RunTags = None, SecurityGroupId = '''', SecurityGroupIds = [],
      SourceAmi = ''ami-12345678'',
      SourceAmiFilter = \<lparr> ami_Filters = [], ami_Owners = [], ami_MostRecent = False \<rparr>,
      SpotInstanceTypes = [], SpotPrice = '''', SpotPriceAutoProduct = '''', SpotTags = None,
      SubnetFilter = \<lparr> subnet_Filters = [], subnet_MostFree = False, subnet_Random = False \<rparr>,
      SubnetId = '''', TemporaryKeyPairName = '''', TemporarySGSourceCidrs = [],
      UserData = '''', UserDataFile = '''', VpcFilter = \<lparr> vpc_Filters = [] \<rparr>, VpcId = '''',
      WindowsPasswordTimeout = 0, Comm = comm_ok \<rparr>"

definition run_both_sources :: "unit RunConfig" where
  "run_both_sources =
    run_ok\<lparr> SourceAmiFilter :=
      \<lparr> ami_Filters = [(''name'', ''ubuntu*'')], ami_Owners = [''self''], ami_MostRecent = True \<rparr> \<rparr>"

definition run_no_source :: "unit RunConfig" where
  "run_no_source = run_ok\<lparr> SourceAmi := '''' \<rparr>"

definition run_many_violations :: "unit RunConfig" where
  "run_many_violations =
    run_ok\<lparr> SourceAmi := '''', InstanceType := '''', BlockDurationMinutes := 90,
            SpotPrice := ''auto'', UserData := ''#!/bin/sh'', UserDataFile := ''/tmp/user-data'',
            SecurityGroupId := ''sg-1'', SecurityGroupIds := [''sg-2''],
            TemporarySGSourceCidrs := [''10.0.0.0/8'', ''bogus''],
            InstanceInitiatedShutdownBehavior := ''halt'', EnableT2Unlimited := True,
            Comm := comm_ok\<lparr> SSHInterface := ''serial'', SSHKeyPairName := ''key'',
                              Type := ''winrm'' \<rparr> \<rparr>"

definition run_other_violations :: "unit RunConfig" where
  "run_other_violations =
    run_ok\<lparr> InstanceType := ''m3.medium'', SpotInstanceTypes := [''c4.large''],
            SpotPriceAutoProduct := ''Linux/UNIX'', SpotTags := Some Map.empty,
            UserDataFile := ''/nonexistent'', EnableT2Unlimited := True,
            Comm := comm_ok\<lparr> SSHKeyPairName := ''key'' \<rparr> \<rparr>"

definition ovf_config_missing :: "unit ovf_Config" where
  "ovf_config_missing =
    \<lparr> embedded = (), Checksum = ''ABC123'', ChecksumType = ''SHA256'', GuestAdditionsMode = '''',
      GuestAdditionsPath = '''', GuestAdditionsInterface = '''', GuestAdditionsSHA256 = '''',
      GuestAdditionsURL = '''', ImportFlags = [], ImportOpts = '''',
      SourcePath = ''/i/dont/exist.ovf'', TargetPath = '''', VMName = '''',
      KeepRegistered = False, SkipExport = False \<rparr>"

definition ovf_env_missing :: "(unit, unit) ovf_env" where
  "ovf_env_missing =
    \<lparr> config_Decode = (\<lambda>_. Inr ovf_config_missing),
      embedded_Prepare = (\<lambda>emb. (emb, replicate 13 [])),
      PackerBuildName = (\<lambda>_. ''vbox''),
      embedded_ShutdownCommand = (\<lambda>_. ''shutdown -P now''),
      InitTime_Unix = 1561939200,
      strings_ToLower = map (\<lambda>ch. if (65 :: nat) \<le> of_char ch \<and> of_char ch \<le> (90 :: nat)
                                     then char_of (of_char ch + (32 :: nat)) else ch),
      ovf_os_Stat = (\<lambda>p. Some (''stat '' @ p @ '': no such file or directory'')),
      GuestAdditionsModeDisable = ''disable'',
      GuestAdditionsModeAttach = ''attach'',
      GuestAdditionsModeUpload = ''upload'' \<rparr>"

definition parse_duration_ok :: "string \<Rightarrow> string + int64" where
  "parse_duration_ok s =
    (if s = ''5m'' then Inr 300000000000
     else if s = ''20s'' then Inr 20000000000
     else Inl (''time: invalid duration '' @ s))"

definition shutdown_omitted :: ShutdownConfig where
  "shutdown_omitted = \<lparr> ShutdownCommand = '''', RawShutdownTimeout = '''', ShutdownTimeout = 0 \<rparr>"

section \<open>Properties of the block-device builder\<close>

lemma buildBlockDevices_loop_map:
  "buildBlockDevices_loop acc b = acc @ map buildMapping b"
  by (induction b arbitrary: acc) simp_all

lemma buildBlockDevices_map: "buildBlockDevices b = map buildMapping b"
  by (simp add: buildBlockDevices_def buildBlockDevices_loop_map)

lemma BlockDevices_Prepare_loop_append:
  "BlockDevices_Prepare_loop pfx errs ds = errs @ BlockDevices_Prepare_loop pfx [] ds"
proof (induction ds arbitrary: errs)
  case Nil
  show ?case by simp
next
  case (Cons d ds)
  show ?case
    using Cons.IH [of "case BlockDevice_Prepare d of Some err \<Rightarrow> errs @ [pfx @ err] | None \<Rightarrow> errs"]
          Cons.IH [of "case BlockDevice_Prepare d of Some err \<Rightarrow> [] @ [pfx @ err] | None \<Rightarrow> []"]
    by (simp split: option.splits)
qed

lemma BlockDevices_Prepare_loop_length:
  "length (BlockDevices_Prepare_loop pfx [] ds) =
   length (filter (\<lambda>d. BlockDevice_Prepare d \<noteq> None) ds)"
proof (induction ds)
  case Nil
  show ?case by simp
next
  case (Cons d ds)
  show ?case
    using Cons.IH BlockDevices_Prepare_loop_append [of pfx "[pfx @ the (BlockDevice_Prepare d)]" ds]
    by (auto split: option.splits)
qed

lemma BlockDevices_Prepare_loop_nonempty:
  "d \<in> set ds \<Longrightarrow> BlockDevice_Prepare d \<noteq> None \<Longrightarrow> BlockDevices_Prepare_loop pfx [] ds \<noteq> []"
  using BlockDevices_Prepare_loop_length [of pfx ds]
  by (metis (mono_tags, lifting) filter_empty_conv length_0_conv)

lemma buildMapping_DeviceName: "bdm_DeviceName (buildMapping d) = Some (DeviceName d)"
  by (simp add: buildMapping_def Let_def)

lemma buildMapping_NoDevice: "bdm_NoDevice (buildMapping d) \<noteq> None \<longleftrightarrow> NoDevice d"
  by (simp add: buildMapping_def Let_def)

lemma buildMapping_VirtualName:
  "bdm_VirtualName (buildMapping d) \<noteq> None \<longleftrightarrow>
     \<not> NoDevice d \<and> VirtualName d \<noteq> '''' \<and> prefix ''ephemeral'' (VirtualName d)"
  by (simp add: buildMapping_def Let_def)

lemma buildMapping_Ebs:
  "bdm_Ebs (buildMapping d) \<noteq> None \<longleftrightarrow> \<not> NoDevice d \<and> VirtualName d = ''''"
  by (simp add: buildMapping_def Let_def)

lemma buildMapping_persistent:
  "\<not> NoDevice d \<Longrightarrow> VirtualName d = '''' \<Longrightarrow>
   buildMapping d = \<lparr> bdm_DeviceName = Some (DeviceName d), bdm_Ebs = Some (buildEbs d),
                      bdm_NoDevice = None, bdm_VirtualName = None \<rparr>"
  by (simp add: buildMapping_def Let_def)

lemma buildEbs_fields:
  "ebs_VolumeSize (buildEbs d) = (if 0 < sint (VolumeSize d) then Some (VolumeSize d) else None)"
  "ebs_Iops (buildEbs d) = (if VolumeType d = ''io1'' then Some (IOPS d) else None)"
  "ebs_SnapshotId (buildEbs d) = (if SnapshotId d \<noteq> '''' then Some (SnapshotId d) else None)"
  "ebs_Encrypted (buildEbs d) = Encrypted d"
  "ebs_KmsKeyId (buildEbs d) = (if KmsKeyId d \<noteq> '''' then Some (KmsKeyId d) else None)"
  "ebs_DeleteOnTermination (buildEbs d) = Some (DeleteOnTermination d)"
  "ebs_VolumeType (buildEbs d) = (if VolumeType d \<noteq> '''' then Some (VolumeType d) else None)"
  by (simp_all add: buildEbs_def Let_def)

lemma BlockDevice_Prepare_kms:
  "KmsKeyId d \<noteq> '''' \<Longrightarrow> Encrypted d = Some False \<Longrightarrow> BlockDevice_Prepare d \<noteq> None"
  by (simp add: BlockDevice_Prepare_def)

lemma BlockDevices_Prepare_append:
  "BlockDevices_Prepare bs =
     BlockDevices_Prepare_loop ''AMIMapping: '' [] (AMIMappings bs) @
     BlockDevices_Prepare_loop ''LaunchMapping: '' [] (LaunchMappings bs)"
  unfolding BlockDevices_Prepare_def Let_def
  by (rule BlockDevices_Prepare_loop_append)

lemmas example_devices =
  dev_persistent_def dev_suppressed_def dev_ephemeral_def dev_unprefixed_def
  dev_kms_unencrypted_def dev_unnamed_kms_unencrypted_def

subsection \<open>C9: one mapping per device, in order, under the device's name\<close>

text \<open>
  Claim C9. For every input list of block devices, \<open>buildBlockDevices\<close> returns exactly one
  mapping per device, in the same order, and the i-th mapping carries the i-th device's
  \<open>DeviceName\<close>, whatever the kind of the device (suppressed and ephemeral ones included).
\<close>

theorem buildBlockDevices_one_mapping_per_device:
  "length (buildBlockDevices b) = length b \<and>
   (\<forall>i < length b. bdm_DeviceName (buildBlockDevices b ! i) = Some (DeviceName (b ! i)))"
  by (simp add: buildBlockDevices_map buildMapping_DeviceName)

theorem buildBlockDevices_one_mapping_per_device_witness:
  "length (buildBlockDevices [dev_persistent, dev_suppressed, dev_ephemeral]) = 3 \<and>
   bdm_DeviceName (buildBlockDevices [dev_persistent, dev_suppressed, dev_ephemeral] ! 0) =
     Some ''/dev/sdb'' \<and>
   bdm_DeviceName (buildBlockDevices [dev_persistent, dev_suppressed, dev_ephemeral] ! 1) =
     Some ''/dev/sdc'' \<and>
   bdm_DeviceName (buildBlockDevices [dev_persistent, dev_suppressed, dev_ephemeral] ! 2) =
     Some ''/dev/sdd''"
proof -
  have l: "length [dev_persistent, dev_suppressed, dev_ephemeral] = 3" by simp
  have n: "[dev_persistent, dev_suppressed, dev_ephemeral] ! 0 = dev_persistent"
    "[dev_persistent, dev_suppressed, dev_ephemeral] ! 1 = dev_suppressed"
    "[dev_persistent, dev_suppressed, dev_ephemeral] ! 2 = dev_ephemeral"
    by simp_all
  have d: "DeviceName dev_persistent = ''/dev/sdb''" "DeviceName dev_suppressed = ''/dev/sdc''"
    "DeviceName dev_ephemeral = ''/dev/sdd''"
    by (simp_all add: example_devices)
  from buildBlockDevices_one_mapping_per_device [of "[dev_persistent, dev_suppressed, dev_ephemeral]"]
  have len: "length (buildBlockDevices [dev_persistent, dev_suppressed, dev_ephemeral]) = 3"
    and nth: "\<And>i. i < 3 \<Longrightarrow>
      bdm_DeviceName (buildBlockDevices [dev_persistent, dev_suppressed, dev_ephemeral] ! i) =
      Some (DeviceName ([dev_persistent, dev_suppressed, dev_ephemeral] ! i))"
    unfolding l by blast+
  show ?thesis
    using len nth [of 0] nth [of 1] nth [of 2] unfolding n d by simp
qed

subsection \<open>C3: the kind of an emitted mapping\<close>

text \<open>
  Claim C3 says that every emitted mapping is of exactly one of three kinds (\<open>NoDevice\<close> set,
  \<open>VirtualName\<close> set, \<open>Ebs\<close> set), never more than one and never none. The code guards the
  ephemeral branch by the prefix "ephemeral": a device that is not suppressed and whose
  virtual name lacks that prefix gets a mapping with none of the three set.
\<close>

theorem buildBlockDevices_kind_counterexample:
  "bdm_NoDevice (buildBlockDevices [dev_unprefixed] ! 0) = None \<and>
   bdm_VirtualName (buildBlockDevices [dev_unprefixed] ! 0) = None \<and>
   bdm_Ebs (buildBlockDevices [dev_unprefixed] ! 0) = None"
  by (simp add: buildBlockDevices_def buildMapping_def Let_def example_devices)

text \<open>
  Claim C3, amended. For every device, the emitted mapping has at most one of \<open>NoDevice\<close>,
  \<open>VirtualName\<close> and \<open>Ebs\<close> set: \<open>NoDevice\<close> exactly when the device is suppressed,
  \<open>VirtualName\<close> exactly when it is not suppressed and its virtual name is non-empty and
  starts with "ephemeral", \<open>Ebs\<close> exactly when it is not suppressed and its virtual name is
  empty. (So none is set exactly for an unsuppressed device whose non-empty virtual name
  lacks the prefix.)
\<close>

theorem buildBlockDevices_kind:
  assumes "i < length b"
  shows "(bdm_NoDevice (buildBlockDevices b ! i) \<noteq> None \<longleftrightarrow> NoDevice (b ! i)) \<and>
         (bdm_VirtualName (buildBlockDevices b ! i) \<noteq> None \<longleftrightarrow>
            \<not> NoDevice (b ! i) \<and> VirtualName (b ! i) \<noteq> '''' \<and>
            prefix ''ephemeral'' (VirtualName (b ! i))) \<and>
         (bdm_Ebs (buildBlockDevices b ! i) \<noteq> None \<longleftrightarrow>
            \<not> NoDevice (b ! i) \<and> VirtualName (b ! i) = '''') \<and>
         \<not> (bdm_NoDevice (buildBlockDevices b ! i) \<noteq> None \<and>
            bdm_VirtualName (buildBlockDevices b ! i) \<noteq> None) \<and>
         \<not> (bdm_NoDevice (buildBlockDevices b ! i) \<noteq> None \<and>
            bdm_Ebs (buildBlockDevices b ! i) \<noteq> None) \<and>
         \<not> (bdm_VirtualName (buildBlockDevices b ! i) \<noteq> None \<and>
            bdm_Ebs (buildBlockDevices b ! i) \<noteq> None)"
proof -
  have m: "buildBlockDevices b ! i = buildMapping (b ! i)"
    using assms by (simp add: buildBlockDevices_map)
  show ?thesis
    unfolding m
    using buildMapping_NoDevice [of "b ! i"] buildMapping_VirtualName [of "b ! i"]
          buildMapping_Ebs [of "b ! i"]
    by blast
qed

theorem buildBlockDevices_kind_witness:
  "bdm_NoDevice (buildBlockDevices [dev_persistent, dev_suppressed, dev_ephemeral] ! 1) \<noteq> None \<and>
   bdm_VirtualName (buildBlockDevices [dev_persistent, dev_suppressed, dev_ephemeral] ! 1) = None \<and>
   bdm_Ebs (buildBlockDevices [dev_persistent, dev_suppressed, dev_ephemeral] ! 1) = None"
proof -
  have i: "1 < length [dev_persistent, dev_suppressed, dev_ephemeral]" by simp
  have s: "NoDevice ([dev_persistent, dev_suppressed, dev_ephemeral] ! 1)"
    by (simp add: example_devices)
  show ?thesis
    using buildBlockDevices_kind [OF i] s by blast
qed

subsection \<open>C5: the fields of a persistent request\<close>

text \<open>
  Claim C5. For every device with \<open>NoDevice\<close> false and \<open>VirtualName\<close> empty,
  \<open>buildBlockDevices\<close> emits a persistent request (\<open>Ebs\<close> set, the other two kinds unset)
  whose \<open>VolumeSize\<close> is populated iff the device's size is greater than zero, whose
  \<open>Iops\<close> is populated iff the volume type is "io1", whose \<open>SnapshotId\<close> is populated iff the
  device's snapshot id is non-empty, and whose \<open>Encrypted\<close> and \<open>KmsKeyId\<close> are those of the
  device (an empty key id is left unset).
\<close>

theorem buildBlockDevices_persistent_fields:
  assumes "i < length b" and "\<not> NoDevice (b ! i)" and "VirtualName (b ! i) = ''''"
  shows "\<exists>ebs. bdm_Ebs (buildBlockDevices b ! i) = Some ebs \<and>
           bdm_NoDevice (buildBlockDevices b ! i) = None \<and>
           bdm_VirtualName (buildBlockDevices b ! i) = None \<and>
           ebs_VolumeSize ebs =
             (if 0 < sint (VolumeSize (b ! i)) then Some (VolumeSize (b ! i)) else None) \<and>
           ebs_Iops ebs = (if VolumeType (b ! i) = ''io1'' then Some (IOPS (b ! i)) else None) \<and>
           ebs_SnapshotId ebs =
             (if SnapshotId (b ! i) \<noteq> '''' then Some (SnapshotId (b ! i)) else None) \<and>
           ebs_Encrypted ebs = Encrypted (b ! i) \<and>
           ebs_KmsKeyId ebs =
             (if KmsKeyId (b ! i) \<noteq> '''' then Some (KmsKeyId (b ! i)) else None)"
proof -
  have m: "buildBlockDevices b ! i = buildMapping (b ! i)"
    using assms(1) by (simp add: buildBlockDevices_map)
  show ?thesis
    unfolding m buildMapping_persistent [OF assms(2,3)]
    by (simp add: buildEbs_fields)
qed

theorem buildBlockDevices_persistent_fields_witness:
  "\<exists>ebs. bdm_Ebs (buildBlockDevices [dev_suppressed, dev_persistent] ! 1) = Some ebs \<and>
     ebs_VolumeSize ebs = Some 8 \<and> ebs_Iops ebs = Some 100 \<and>
     ebs_SnapshotId ebs = Some ''snap-1'' \<and> ebs_Encrypted ebs = Some True \<and>
     ebs_KmsKeyId ebs = Some ''key-1''"
proof -
  have i: "1 < length [dev_suppressed, dev_persistent]" by simp
  have n: "\<not> NoDevice ([dev_suppressed, dev_persistent] ! 1)"
    and v: "VirtualName ([dev_suppressed, dev_persistent] ! 1) = ''''"
    by (simp_all add: example_devices)
  have nth: "[dev_suppressed, dev_persistent] ! 1 = dev_persistent" by simp
  have f: "VolumeSize dev_persistent = 8" "VolumeType dev_persistent = ''io1''"
    "IOPS dev_persistent = 100" "SnapshotId dev_persistent = ''snap-1''"
    "Encrypted dev_persistent = Some True" "KmsKeyId dev_persistent = ''key-1''"
    by (simp_all add: dev_persistent_def)
  show ?thesis
    using buildBlockDevices_persistent_fields [OF i n v] unfolding nth f
    by auto
qed

subsection \<open>C6: a key id with encryption switched off is rejected\<close>

text \<open>
  Claim C6. For every block device with a non-empty \<open>KmsKeyId\<close> and \<open>Encrypted\<close> explicitly
  false, \<open>BlockDevice.Prepare\<close> returns an error, and \<open>BlockDevices.Prepare\<close> returns at least
  one error for any configuration that lists the device among its AMI or launch mappings.
\<close>

theorem kms_key_without_encryption_rejected:
  assumes "KmsKeyId d \<noteq> ''''" and "Encrypted d = Some False"
    and "d \<in> set (AMIMappings bs) \<or> d \<in> set (LaunchMappings bs)"
  shows "BlockDevice_Prepare d \<noteq> None \<and> length (BlockDevices_Prepare bs) \<ge> 1"
proof -
  have e: "BlockDevice_Prepare d \<noteq> None"
    using assms(1,2) by (rule BlockDevice_Prepare_kms)
  from assms(3) have "BlockDevices_Prepare bs \<noteq> []"
  proof
    assume "d \<in> set (AMIMappings bs)"
    then show ?thesis
      using BlockDevices_Prepare_loop_nonempty [OF _ e, of "AMIMappings bs" "''AMIMapping: ''"]
      by (simp add: BlockDevices_Prepare_append)
  next
    assume "d \<in> set (LaunchMappings bs)"
    then show ?thesis
      using BlockDevices_Prepare_loop_nonempty [OF _ e, of "LaunchMappings bs" "''LaunchMapping: ''"]
      by (simp add: BlockDevices_Prepare_append)
  qed
  then have "length (BlockDevices_Prepare bs) \<ge> 1"
    by (cases "BlockDevices_Prepare bs") simp_all
  with e show ?thesis by simp
qed

theorem kms_key_without_encryption_rejected_witness:
  "BlockDevice_Prepare dev_kms_unencrypted \<noteq> None \<and>
   length (BlockDevices_Prepare
     \<lparr> AMIMappings = [dev_persistent], LaunchMappings = [dev_kms_unencrypted] \<rparr>) \<ge> 1"
proof -
  have k: "KmsKeyId dev_kms_unencrypted \<noteq> ''''"
    and n: "Encrypted dev_kms_unencrypted = Some False"
    by (simp_all add: example_devices)
  have m: "dev_kms_unencrypted \<in>
        set (AMIMappings \<lparr> AMIMappings = [dev_persistent], LaunchMappings = [dev_kms_unencrypted] \<rparr>) \<or>
      dev_kms_unencrypted \<in>
        set (LaunchMappings \<lparr> AMIMappings = [dev_persistent], LaunchMappings = [dev_kms_unencrypted] \<rparr>)"
    by simp
  show ?thesis
    by (rule kms_key_without_encryption_rejected [OF k n m])
qed

section \<open>Properties of \<open>RunConfig.Prepare\<close>\<close>

lemma validate_ssh_interface_append:
  "validate_ssh_interface c errs = errs @ validate_ssh_interface c []"
  by (simp add: validate_ssh_interface_def)

lemma validate_ssh_keypair_append:
  "validate_ssh_keypair c errs = errs @ validate_ssh_keypair c []"
  by (simp add: validate_ssh_keypair_def)

lemma validate_source_ami_append:
  "validate_source_ami c errs = errs @ validate_source_ami c []"
  by (simp add: validate_source_ami_def)

lemma validate_source_ami_owner_append:
  "validate_source_ami_owner c errs = errs @ validate_source_ami_owner c []"
  by (simp add: validate_source_ami_owner_def)

lemma validate_instance_type_given_append:
  "validate_instance_type_given c errs = errs @ validate_instance_type_given c []"
  by (simp add: validate_instance_type_given_def)

lemma validate_instance_type_once_append:
  "validate_instance_type_once c errs = errs @ validate_instance_type_once c []"
  by (simp add: validate_instance_type_once_def)

lemma validate_block_duration_append:
  "validate_block_duration c errs = errs @ validate_block_duration c []"
  by (simp add: validate_block_duration_def)

lemma validate_spot_price_auto_append:
  "validate_spot_price_auto c errs = errs @ validate_spot_price_auto c []"
  by (simp add: validate_spot_price_auto_def)

lemma validate_spot_price_auto_product_append:
  "validate_spot_price_auto_product c errs = errs @ validate_spot_price_auto_product c []"
  by (simp add: validate_spot_price_auto_product_def)

lemma validate_spot_tags_append:
  "validate_spot_tags c errs = errs @ validate_spot_tags c []"
  by (simp add: validate_spot_tags_def)

lemma validate_user_data_append:
  "validate_user_data e c errs = errs @ validate_user_data e c []"
  by (simp add: validate_user_data_def)

lemma validate_t2_unlimited_append:
  "validate_t2_unlimited c errs = errs @ validate_t2_unlimited c []"
  by (simp add: validate_t2_unlimited_def Let_def)

lemma ParseCIDR_loop_append:
  "ParseCIDR_loop e cidrs errs = errs @ ParseCIDR_loop e cidrs []"
proof (induction cidrs arbitrary: errs)
  case Nil
  show ?case by simp
next
  case (Cons cidr cidrs)
  show ?case
  proof (cases "net_ParseCIDR e cidr")
    case None
    then show ?thesis using Cons.IH [of errs] by simp
  next
    case (Some err)
    then show ?thesis
      using Cons.IH [of "errs @ [''Error parsing CIDR in temporary_security_group_source_cidrs: '' @ err]"]
            Cons.IH [of "[''Error parsing CIDR in temporary_security_group_source_cidrs: '' @ err]"]
      by simp
  qed
qed

lemma prepare_security_group_append:
  "prepare_security_group c errs =
     (fst (prepare_security_group c []), errs @ snd (prepare_security_group c []))"
  by (simp add: prepare_security_group_def)

lemma prepare_temporary_sg_source_cidrs_append:
  "prepare_temporary_sg_source_cidrs e c errs =
     (fst (prepare_temporary_sg_source_cidrs e c []),
      errs @ snd (prepare_temporary_sg_source_cidrs e c []))"
  using ParseCIDR_loop_append [of e "TemporarySGSourceCidrs c" errs]
  by (simp add: prepare_temporary_sg_source_cidrs_def)

lemma prepare_shutdown_behavior_append:
  "prepare_shutdown_behavior c errs =
     (fst (prepare_shutdown_behavior c []), errs @ snd (prepare_shutdown_behavior c []))"
  by (simp add: prepare_shutdown_behavior_def)

lemma RunConfig_Prepare_unfold:
  "RunConfig_Prepare e c0 =
    (let c4 = RunConfig_validated e c0;
         c5 = fst (prepare_security_group c4 []);
         c6 = fst (prepare_temporary_sg_source_cidrs e c5 []);
         c7 = fst (prepare_shutdown_behavior c6 [])
     in (c7,
         RunConfig_Comm_errors e c0 @
         validate_ssh_interface c4 [] @ validate_ssh_keypair c4 [] @
         validate_source_ami c4 [] @ validate_source_ami_owner c4 [] @
         validate_instance_type_given c4 [] @ validate_instance_type_once c4 [] @
         validate_block_duration c4 [] @ validate_spot_price_auto c4 [] @
         validate_spot_price_auto_product c4 [] @ validate_spot_tags c4 [] @
         validate_user_data e c4 [] @
         snd (prepare_security_group c4 []) @
         snd (prepare_temporary_sg_source_cidrs e c5 []) @
         snd (prepare_shutdown_behavior c6 []) @
         validate_t2_unlimited c7 []))"
proof -
  have comm: "Comm (default_run_tags (default_windows_password_timeout c)) = Comm c"
    for c :: "'a RunConfig"
    by (simp add: default_run_tags_def default_windows_password_timeout_def)
  have v: "validate_ssh_interface c errs = errs @ id (validate_ssh_interface c) []"
    "validate_ssh_keypair c errs = errs @ id (validate_ssh_keypair c) []"
    "validate_source_ami c errs = errs @ id (validate_source_ami c) []"
    "validate_source_ami_owner c errs = errs @ id (validate_source_ami_owner c) []"
    "validate_instance_type_given c errs = errs @ id (validate_instance_type_given c) []"
    "validate_instance_type_once c errs = errs @ id (validate_instance_type_once c) []"
    "validate_block_duration c errs = errs @ id (validate_block_duration c) []"
    "validate_spot_price_auto c errs = errs @ id (validate_spot_price_auto c) []"
    "validate_spot_price_auto_product c errs = errs @ id (validate_spot_price_auto_product c) []"
    "validate_spot_tags c errs = errs @ id (validate_spot_tags c) []"
    "validate_user_data e c errs = errs @ id (validate_user_data e c) []"
    "validate_t2_unlimited c errs = errs @ id (validate_t2_unlimited c) []"
    "prepare_security_group c errs =
       (fst (id (prepare_security_group c) []), errs @ snd (id (prepare_security_group c) []))"
    "prepare_temporary_sg_source_cidrs e c errs =
       (fst (id (prepare_temporary_sg_source_cidrs e c) []),
        errs @ snd (id (prepare_temporary_sg_source_cidrs e c) []))"
    "prepare_shutdown_behavior c errs =
       (fst (id (prepare_shutdown_behavior c) []), errs @ snd (id (prepare_shutdown_behavior c) []))"
    for c :: "'a RunConfig" and errs
    unfolding id_apply
    by (rule validate_ssh_interface_append validate_ssh_keypair_append validate_source_ami_append
        validate_source_ami_owner_append validate_instance_type_given_append
        validate_instance_type_once_append validate_block_duration_append
        validate_spot_price_auto_append validate_spot_price_auto_product_append
        validate_spot_tags_append validate_user_data_append validate_t2_unlimited_append
        prepare_security_group_append prepare_temporary_sg_source_cidrs_append
        prepare_shutdown_behavior_append)+
  show ?thesis
    unfolding RunConfig_Prepare_def RunConfig_validated_def RunConfig_Comm_errors_def Let_def
      case_prod_beta comm
    by (simp only: v fst_conv snd_conv append_assoc append_Nil)
qed

lemma default_temporary_key_pair_update:
  "default_temporary_key_pair e c =
     c\<lparr> Comm := (Comm c)\<lparr> SSHTemporaryKeyPairName :=
        (if SSHKeyPairName (Comm c) = '''' \<and> SSHTemporaryKeyPairName (Comm c) = '''' \<and>
            SSHPrivateKeyFile (Comm c) = '''' \<and> SSHPassword (Comm c) = ''''
         then ''packer_'' @ uuid_TimeOrderedUUID e
         else SSHTemporaryKeyPairName (Comm c)) \<rparr> \<rparr>"
  by (simp add: default_temporary_key_pair_def)

lemma RunConfig_validated_update:
  "RunConfig_validated e c =
     c\<lparr> WindowsPasswordTimeout :=
          (if WindowsPasswordTimeout c = 0 then 20 * 60000000000 else WindowsPasswordTimeout c),
        RunTags := (if RunTags c = None then Some Map.empty else RunTags c),
        Comm := fst (Comm_Prepare e (Comm (default_temporary_key_pair e c))) \<rparr>"
  by (simp add: RunConfig_validated_def default_run_tags_def
      default_windows_password_timeout_def default_temporary_key_pair_def Let_def)

lemma prepare_security_group_update:
  "fst (prepare_security_group c errs) =
     c\<lparr> SecurityGroupIds :=
          (if SecurityGroupId c \<noteq> '''' \<and> \<not> length (SecurityGroupIds c) > 0
           then [SecurityGroupId c] else SecurityGroupIds c),
        SecurityGroupId :=
          (if SecurityGroupId c \<noteq> '''' \<and> \<not> length (SecurityGroupIds c) > 0
           then '''' else SecurityGroupId c) \<rparr>"
  by (simp add: prepare_security_group_def)

lemma prepare_temporary_sg_source_cidrs_update:
  "fst (prepare_temporary_sg_source_cidrs e c errs) =
     c\<lparr> TemporarySGSourceCidrs :=
          (if length (TemporarySGSourceCidrs c) = 0 then [''0.0.0.0/0'']
           else TemporarySGSourceCidrs c) \<rparr>"
  by (simp add: prepare_temporary_sg_source_cidrs_def)

lemma prepare_shutdown_behavior_update:
  "fst (prepare_shutdown_behavior c errs) =
     c\<lparr> InstanceInitiatedShutdownBehavior :=
          (if InstanceInitiatedShutdownBehavior c = '''' then ''stop''
           else InstanceInitiatedShutdownBehavior c) \<rparr>"
  by (simp add: prepare_shutdown_behavior_def)

lemmas RunConfig_updates =
  RunConfig_validated_update prepare_security_group_update
  prepare_temporary_sg_source_cidrs_update prepare_shutdown_behavior_update

lemma prepare_security_group_errors:
  "snd (prepare_security_group c []) =
     (if SecurityGroupId c \<noteq> '''' \<and> length (SecurityGroupIds c) > 0
      then [''Only one of security_group_id or security_group_ids can be specified.'']
      else [])"
  by (simp add: prepare_security_group_def)

lemma prepare_temporary_sg_source_cidrs_errors:
  "snd (prepare_temporary_sg_source_cidrs e c []) =
     (if length (TemporarySGSourceCidrs c) = 0 then []
      else ParseCIDR_loop e (TemporarySGSourceCidrs c) [])"
  by (simp add: prepare_temporary_sg_source_cidrs_def)

lemma prepare_shutdown_behavior_errors:
  "snd (prepare_shutdown_behavior c []) =
     (if InstanceInitiatedShutdownBehavior c \<noteq> '''' \<and>
         \<not> reShutdownBehavior_MatchString (InstanceInitiatedShutdownBehavior c)
      then [''shutdown_behavior only accepts 'stop' or 'terminate' values.'']
      else [])"
  by (simp add: prepare_shutdown_behavior_def)

lemmas RunConfig_step_errors =
  prepare_security_group_errors prepare_temporary_sg_source_cidrs_errors
  prepare_shutdown_behavior_errors

lemmas RunConfig_rules =
  validate_ssh_interface_def validate_ssh_keypair_def validate_source_ami_def
  validate_source_ami_owner_def validate_instance_type_given_def
  validate_instance_type_once_def validate_block_duration_def validate_spot_price_auto_def
  validate_spot_price_auto_product_def validate_spot_tags_def validate_user_data_def
  validate_t2_unlimited_def

lemma ParseCIDR_loop_prefix:
  "m \<in> set (ParseCIDR_loop e cidrs []) \<Longrightarrow>
   prefix ''Error parsing CIDR in temporary_security_group_source_cidrs: '' m"
proof (induction cidrs)
  case Nil
  then show ?case by simp
next
  case (Cons cidr cidrs)
  show ?case
  proof (cases "net_ParseCIDR e cidr")
    case None
    with Cons show ?thesis by simp
  next
    case (Some err)
    have "ParseCIDR_loop e (cidr # cidrs) [] =
        [''Error parsing CIDR in temporary_security_group_source_cidrs: '' @ err] @
        ParseCIDR_loop e cidrs []"
      using Some
        ParseCIDR_loop_append [of e cidrs
          "[''Error parsing CIDR in temporary_security_group_source_cidrs: '' @ err]"]
      by simp
    with Cons show ?thesis by auto
  qed
qed

lemma rules_on_validated:
  "validate_source_ami (RunConfig_validated e c) [] = validate_source_ami c []"
  "validate_source_ami_owner (RunConfig_validated e c) [] = validate_source_ami_owner c []"
  "validate_instance_type_given (RunConfig_validated e c) [] = validate_instance_type_given c []"
  "validate_instance_type_once (RunConfig_validated e c) [] = validate_instance_type_once c []"
  "validate_block_duration (RunConfig_validated e c) [] = validate_block_duration c []"
  "validate_spot_price_auto (RunConfig_validated e c) [] = validate_spot_price_auto c []"
  "validate_spot_price_auto_product (RunConfig_validated e c) [] =
     validate_spot_price_auto_product c []"
  "validate_spot_tags (RunConfig_validated e c) [] = validate_spot_tags c []"
  "validate_user_data e (RunConfig_validated e c) [] = validate_user_data e c []"
  "snd (prepare_security_group (RunConfig_validated e c) []) = snd (prepare_security_group c [])"
  by (simp_all add: RunConfig_validated_update RunConfig_rules prepare_security_group_errors)

lemma validate_t2_unlimited_cong:
  "EnableT2Unlimited c' = EnableT2Unlimited c \<Longrightarrow> SpotPrice c' = SpotPrice c \<Longrightarrow>
   InstanceType c' = InstanceType c \<Longrightarrow>
   validate_t2_unlimited c' errs = validate_t2_unlimited c errs"
  by (simp only: validate_t2_unlimited_def)

lemma steps_on_validated:
  "snd (prepare_temporary_sg_source_cidrs e
          (fst (prepare_security_group (RunConfig_validated e c) [])) []) =
   snd (prepare_temporary_sg_source_cidrs e c [])"
  "snd (prepare_shutdown_behavior
          (fst (prepare_temporary_sg_source_cidrs e
             (fst (prepare_security_group (RunConfig_validated e c) [])) [])) []) =
   snd (prepare_shutdown_behavior c [])"
  "validate_t2_unlimited
     (fst (prepare_shutdown_behavior
        (fst (prepare_temporary_sg_source_cidrs e
           (fst (prepare_security_group (RunConfig_validated e c) [])) [])) [])) [] =
   validate_t2_unlimited c []"
proof -
  show "snd (prepare_temporary_sg_source_cidrs e
          (fst (prepare_security_group (RunConfig_validated e c) [])) []) =
        snd (prepare_temporary_sg_source_cidrs e c [])"
    by (simp add: RunConfig_updates prepare_temporary_sg_source_cidrs_errors)
  show "snd (prepare_shutdown_behavior
          (fst (prepare_temporary_sg_source_cidrs e
             (fst (prepare_security_group (RunConfig_validated e c) [])) [])) []) =
        snd (prepare_shutdown_behavior c [])"
    by (simp add: RunConfig_updates prepare_shutdown_behavior_errors)
  show "validate_t2_unlimited
     (fst (prepare_shutdown_behavior
        (fst (prepare_temporary_sg_source_cidrs e
           (fst (prepare_security_group (RunConfig_validated e c) [])) [])) [])) [] =
     validate_t2_unlimited c []"
    by (rule validate_t2_unlimited_cong) (simp_all add: RunConfig_updates)
qed

lemma RunConfig_Prepare_errors:
  "snd (RunConfig_Prepare e c) =
     RunConfig_Comm_errors e c @
     validate_ssh_interface (RunConfig_validated e c) [] @
     validate_ssh_keypair (RunConfig_validated e c) [] @
     validate_source_ami c [] @ validate_source_ami_owner c [] @
     validate_instance_type_given c [] @ validate_instance_type_once c [] @
     validate_block_duration c [] @ validate_spot_price_auto c [] @
     validate_spot_price_auto_product c [] @ validate_spot_tags c [] @
     validate_user_data e c [] @
     snd (prepare_security_group c []) @
     snd (prepare_temporary_sg_source_cidrs e c []) @
     snd (prepare_shutdown_behavior c []) @
     validate_t2_unlimited c []"
  unfolding RunConfig_Prepare_unfold Let_def snd_conv rules_on_validated steps_on_validated
  by (rule refl)

lemma env_ok_simps:
  "uuid_TimeOrderedUUID env_ok = ''5e1f1a2b-0000-0000-0000-000000000000''"
  "Comm_Prepare env_ok k = (k, [])"
  "os_Stat env_ok p = (if p = ''/tmp/user-data'' then None else Some ''no such file or directory'')"
  "net_ParseCIDR env_ok s = (if s = ''0.0.0.0/0'' \<or> s = ''10.0.0.0/8'' then None
                            else Some (''invalid CIDR address: '' @ s))"
  by (simp_all add: env_ok_def)

lemma RunConfig_Comm_errors_env_ok: "RunConfig_Comm_errors env_ok c = []"
  by (simp add: RunConfig_Comm_errors_def env_ok_simps)

lemma Comm_validated_env_ok:
  "Comm (RunConfig_validated env_ok c) = Comm (default_temporary_key_pair env_ok c)"
  by (simp add: RunConfig_validated_update env_ok_simps)

lemma run_ok_errors: "snd (RunConfig_Prepare env_ok run_ok) = []"
  by (simp add: RunConfig_Prepare_errors RunConfig_Comm_errors_env_ok RunConfig_rules
      RunConfig_step_errors Comm_validated_env_ok default_temporary_key_pair_update
      run_ok_def comm_ok_def AmiFilterOptions_Empty_def AmiFilterOptions_NoOwner_def
      signed_modulo_int_def)

lemma RunConfig_Prepare_mem:
  "m \<in> set (snd (RunConfig_Prepare e c)) \<longleftrightarrow>
     m \<in> set (RunConfig_Comm_errors e c) \<or>
     m \<in> set (validate_ssh_interface (RunConfig_validated e c) []) \<or>
     m \<in> set (validate_ssh_keypair (RunConfig_validated e c) []) \<or>
     m \<in> set (validate_source_ami c []) \<or> m \<in> set (validate_source_ami_owner c []) \<or>
     m \<in> set (validate_instance_type_given c []) \<or>
     m \<in> set (validate_instance_type_once c []) \<or>
     m \<in> set (validate_block_duration c []) \<or> m \<in> set (validate_spot_price_auto c []) \<or>
     m \<in> set (validate_spot_price_auto_product c []) \<or> m \<in> set (validate_spot_tags c []) \<or>
     m \<in> set (validate_user_data e c []) \<or>
     m \<in> set (snd (prepare_security_group c [])) \<or>
     m \<in> set (snd (prepare_temporary_sg_source_cidrs e c [])) \<or>
     m \<in> set (snd (prepare_shutdown_behavior c [])) \<or>
     m \<in> set (validate_t2_unlimited c [])"
  unfolding RunConfig_Prepare_errors set_append Un_iff
  by (rule refl)

lemma Comm_errors_subset:
  "\<forall>k. m \<notin> set (snd (Comm_Prepare e k)) \<Longrightarrow> m \<notin> set (RunConfig_Comm_errors e c)"
  by (simp add: RunConfig_Comm_errors_def)

lemma mem_validate_ssh_interface:
  "m \<in> set (validate_ssh_interface c []) \<Longrightarrow> m = ''Unknown interface type: '' @ SSHInterface (Comm c)"
  by (simp add: validate_ssh_interface_def split: if_splits)

lemma mem_validate_ssh_keypair:
  "m \<in> set (validate_ssh_keypair c []) \<Longrightarrow>
   m = ''ssh_private_key_file must be provided to retrieve the winrm password when using ssh_keypair_name.'' \<or>
   m = ''ssh_private_key_file must be provided or ssh_agent_auth enabled when ssh_keypair_name is specified.''"
  by (simp add: validate_ssh_keypair_def split: if_splits)

lemma mem_validate_source_ami:
  "m \<in> set (validate_source_ami c []) \<longleftrightarrow>
   SourceAmi c = '''' \<and> AmiFilterOptions_Empty (SourceAmiFilter c) \<and>
   m = ''A source_ami or source_ami_filter must be specified''"
  by (auto simp add: validate_source_ami_def)

lemma mem_validate_source_ami_owner:
  "m \<in> set (validate_source_ami_owner c []) \<longleftrightarrow>
   SourceAmi c = '''' \<and> AmiFilterOptions_NoOwner (SourceAmiFilter c) \<and>
   m = ''For security reasons, your source AMI filter must declare an owner.''"
  by (auto simp add: validate_source_ami_owner_def)

lemma mem_validate_instance_type_given:
  "m \<in> set (validate_instance_type_given c []) \<longleftrightarrow>
   InstanceType c = '''' \<and> SpotInstanceTypes c = [] \<and>
   m = ''either instance_type or spot_instance_types must be specified''"
  by (auto simp add: validate_instance_type_given_def)

lemma mem_validate_instance_type_once:
  "m \<in> set (validate_instance_type_once c []) \<longleftrightarrow>
   InstanceType c \<noteq> '''' \<and> SpotInstanceTypes c \<noteq> [] \<and>
   m = ''either instance_type or spot_instance_types must be specified, not both''"
  by (auto simp add: validate_instance_type_once_def)

lemma mem_validate_block_duration:
  "m \<in> set (validate_block_duration c []) \<longleftrightarrow>
   sint (BlockDurationMinutes c) smod 60 \<noteq> 0 \<and>
   m = ''block_duration_minutes must be multiple of 60''"
  by (auto simp add: validate_block_duration_def)

lemma mem_validate_spot_price_auto:
  "m \<in> set (validate_spot_price_auto c []) \<longleftrightarrow>
   SpotPrice c = ''auto'' \<and> SpotPriceAutoProduct c = '''' \<and>
   m = ''spot_price_auto_product must be specified when spot_price is auto''"
  by (auto simp add: validate_spot_price_auto_def)

lemma mem_validate_spot_price_auto_product:
  "m \<in> set (validate_spot_price_auto_product c []) \<longleftrightarrow>
   SpotPriceAutoProduct c \<noteq> '''' \<and> SpotPrice c \<noteq> ''auto'' \<and>
   m = ''spot_price should be set to auto when spot_price_auto_product is specified''"
  by (auto simp add: validate_spot_price_auto_product_def)

lemma mem_validate_spot_tags:
  "m \<in> set (validate_spot_tags c []) \<longleftrightarrow>
   SpotTags c \<noteq> None \<and> (SpotPrice c = '''' \<or> SpotPrice c = ''0'') \<and>
   m = ''spot_tags should not be set when not requesting a spot instance''"
  by (auto simp add: validate_spot_tags_def)

lemma mem_validate_user_data:
  "m \<in> set (validate_user_data e c []) \<longleftrightarrow>
   (UserData c \<noteq> '''' \<and> UserDataFile c \<noteq> '''' \<and>
    m = ''Only one of user_data or user_data_file can be specified.'') \<or>
   (UserData c = '''' \<and> UserDataFile c \<noteq> '''' \<and> os_Stat e (UserDataFile c) \<noteq> None \<and>
    m = ''user_data_file not found: '' @ UserDataFile c)"
  by (auto simp add: validate_user_data_def)

lemma mem_prepare_security_group:
  "m \<in> set (snd (prepare_security_group c [])) \<longleftrightarrow>
   SecurityGroupId c \<noteq> '''' \<and> SecurityGroupIds c \<noteq> [] \<and>
   m = ''Only one of security_group_id or security_group_ids can be specified.''"
  by (auto simp add: prepare_security_group_errors)

lemma mem_prepare_temporary_sg_source_cidrs:
  "m \<in> set (snd (prepare_temporary_sg_source_cidrs e c [])) \<Longrightarrow>
   prefix ''Error parsing CIDR in temporary_security_group_source_cidrs: '' m"
  using ParseCIDR_loop_prefix [of m e "TemporarySGSourceCidrs c"]
  by (simp add: prepare_temporary_sg_source_cidrs_errors split: if_splits)

lemma mem_prepare_shutdown_behavior:
  "m \<in> set (snd (prepare_shutdown_behavior c [])) \<longleftrightarrow>
   InstanceInitiatedShutdownBehavior c \<noteq> '''' \<and>
   \<not> reShutdownBehavior_MatchString (InstanceInitiatedShutdownBehavior c) \<and>
   m = ''shutdown_behavior only accepts 'stop' or 'terminate' values.''"
  by (auto simp add: prepare_shutdown_behavior_errors)

lemma mem_validate_t2_unlimited:
  "m \<in> set (validate_t2_unlimited c []) \<longleftrightarrow>
   EnableT2Unlimited c \<and>
   ((SpotPrice c \<noteq> '''' \<and>
     m = ''Error: T2 Unlimited cannot be used in conjuction with Spot Instances'') \<or>
    (strings_Index (InstanceType c) ''.'' = - 1 \<and>
     m = ''Error determining main Instance Type from: '' @ InstanceType c) \<or>
    (strings_Index (InstanceType c) ''.'' \<noteq> - 1 \<and>
     take (nat (strings_Index (InstanceType c) ''.'')) (InstanceType c) \<noteq> ''t2'' \<and>
     m = ''Error: T2 Unlimited enabled with a non-T2 Instance Type: '' @ InstanceType c))"
  by (auto simp add: validate_t2_unlimited_def Let_def)

lemmas mem_rules =
  mem_validate_source_ami mem_validate_source_ami_owner mem_validate_instance_type_given
  mem_validate_instance_type_once mem_validate_block_duration mem_validate_spot_price_auto
  mem_validate_spot_price_auto_product mem_validate_spot_tags mem_validate_user_data
  mem_prepare_security_group mem_prepare_shutdown_behavior mem_validate_t2_unlimited

lemma source_ami_message_mem:
  assumes "\<forall>k. ''A source_ami or source_ami_filter must be specified'' \<notin> set (snd (Comm_Prepare e k))"
  shows "''A source_ami or source_ami_filter must be specified'' \<in> set (snd (RunConfig_Prepare e c)) \<longleftrightarrow>
         SourceAmi c = '''' \<and> AmiFilterOptions_Empty (SourceAmiFilter c)"
  using Comm_errors_subset [OF assms, of c]
    mem_validate_ssh_interface [of "''A source_ami or source_ami_filter must be specified''" "RunConfig_validated e c"]
    mem_validate_ssh_keypair [of "''A source_ami or source_ami_filter must be specified''" "RunConfig_validated e c"]
    mem_prepare_temporary_sg_source_cidrs [of "''A source_ami or source_ami_filter must be specified''" e c]
  by (auto simp add: RunConfig_Prepare_mem mem_rules)

lemma count_list_absent: "m \<notin> set xs \<Longrightarrow> count_list xs m = 0"
  by (simp add: count_list_0_iff)

lemma RunConfig_Prepare_config:
  "fst (RunConfig_Prepare e c) =
     c\<lparr> WindowsPasswordTimeout :=
          (if WindowsPasswordTimeout c = 0 then 20 * 60000000000 else WindowsPasswordTimeout c),
        RunTags := (if RunTags c = None then Some Map.empty else RunTags c),
        Comm := fst (Comm_Prepare e (Comm (default_temporary_key_pair e c))),
        SecurityGroupIds :=
          (if SecurityGroupId c \<noteq> '''' \<and> \<not> length (SecurityGroupIds c) > 0
           then [SecurityGroupId c] else SecurityGroupIds c),
        SecurityGroupId :=
          (if SecurityGroupId c \<noteq> '''' \<and> \<not> length (SecurityGroupIds c) > 0
           then '''' else SecurityGroupId c),
        TemporarySGSourceCidrs :=
          (if length (TemporarySGSourceCidrs c) = 0 then [''0.0.0.0/0'']
           else TemporarySGSourceCidrs c),
        InstanceInitiatedShutdownBehavior :=
          (if InstanceInitiatedShutdownBehavior c = '''' then ''stop''
           else InstanceInitiatedShutdownBehavior c) \<rparr>"
  unfolding RunConfig_Prepare_unfold Let_def fst_conv RunConfig_updates
  by simp

lemma validate_ssh_cong:
  "Comm c' = Comm c \<Longrightarrow> validate_ssh_interface c' errs = validate_ssh_interface c errs"
  "Comm c' = Comm c \<Longrightarrow> validate_ssh_keypair c' errs = validate_ssh_keypair c errs"
  by (simp_all add: validate_ssh_interface_def validate_ssh_keypair_def)

subsection \<open>C7: the block duration must be a multiple of 60\<close>

text \<open>
  How often the block-duration message is in the returned list, when the communicator's
  own \<open>Prepare\<close> never reports it: once if the remainder is non-zero, never otherwise.
\<close>

lemma block_duration_message_count:
  assumes "\<forall>k. ''block_duration_minutes must be multiple of 60'' \<notin> set (snd (Comm_Prepare e k))"
  shows "count_list (snd (RunConfig_Prepare e c)) ''block_duration_minutes must be multiple of 60'' =
         (if sint (BlockDurationMinutes c) smod 60 \<noteq> 0 then 1 else 0)"
proof -
  let ?m = "''block_duration_minutes must be multiple of 60''"
  have z: "count_list (RunConfig_Comm_errors e c) ?m = 0"
    "count_list (validate_ssh_interface (RunConfig_validated e c) []) ?m = 0"
    "count_list (validate_ssh_keypair (RunConfig_validated e c) []) ?m = 0"
    "count_list (validate_source_ami c []) ?m = 0"
    "count_list (validate_source_ami_owner c []) ?m = 0"
    "count_list (validate_instance_type_given c []) ?m = 0"
    "count_list (validate_instance_type_once c []) ?m = 0"
    "count_list (validate_spot_price_auto c []) ?m = 0"
    "count_list (validate_spot_price_auto_product c []) ?m = 0"
    "count_list (validate_spot_tags c []) ?m = 0"
    "count_list (validate_user_data e c []) ?m = 0"
    "count_list (snd (prepare_security_group c [])) ?m = 0"
    "count_list (snd (prepare_temporary_sg_source_cidrs e c [])) ?m = 0"
    "count_list (snd (prepare_shutdown_behavior c [])) ?m = 0"
    "count_list (validate_t2_unlimited c []) ?m = 0"
    using Comm_errors_subset [OF assms, of c]
      mem_validate_ssh_interface [of ?m "RunConfig_validated e c"]
      mem_validate_ssh_keypair [of ?m "RunConfig_validated e c"]
      mem_prepare_temporary_sg_source_cidrs [of ?m e c]
    by (auto intro!: count_list_absent simp add: mem_rules)
  have b: "count_list (validate_block_duration c []) ?m =
      (if sint (BlockDurationMinutes c) smod 60 \<noteq> 0 then 1 else 0)"
    by (simp add: validate_block_duration_def)
  show ?thesis
    unfolding RunConfig_Prepare_errors count_list_append z b by simp
qed

text \<open>
  Claim C7. With \<open>BlockDurationMinutes = 90\<close> the list returned by \<open>RunConfig.Prepare\<close>
  contains exactly one "must be multiple of 60" error, and with \<open>BlockDurationMinutes = 120\<close>
  it contains none. The hypothesis sets aside the errors of the communicator's own
  \<open>Prepare\<close>, which is another package's: it never reports this message.
\<close>

theorem block_duration_multiple_of_60:
  assumes "\<forall>k. ''block_duration_minutes must be multiple of 60'' \<notin> set (snd (Comm_Prepare e k))"
  shows "(BlockDurationMinutes c = 90 \<longrightarrow>
           count_list (snd (RunConfig_Prepare e c))
             ''block_duration_minutes must be multiple of 60'' = 1) \<and>
         (BlockDurationMinutes c = 120 \<longrightarrow>
           count_list (snd (RunConfig_Prepare e c))
             ''block_duration_minutes must be multiple of 60'' = 0)"
  unfolding block_duration_message_count [OF assms]
  by (simp add: signed_modulo_int_def)

theorem block_duration_multiple_of_60_witness:
  "count_list (snd (RunConfig_Prepare env_ok (run_ok\<lparr> BlockDurationMinutes := 90 \<rparr>)))
     ''block_duration_minutes must be multiple of 60'' = 1 \<and>
   count_list (snd (RunConfig_Prepare env_ok (run_ok\<lparr> BlockDurationMinutes := 120 \<rparr>)))
     ''block_duration_minutes must be multiple of 60'' = 0"
proof -
  have h: "\<forall>k. ''block_duration_minutes must be multiple of 60'' \<notin> set (snd (Comm_Prepare env_ok k))"
    by (simp add: env_ok_simps)
  have a: "BlockDurationMinutes (run_ok\<lparr> BlockDurationMinutes := 90 \<rparr>) = 90"
    and b: "BlockDurationMinutes (run_ok\<lparr> BlockDurationMinutes := 120 \<rparr>) = 120"
    by simp_all
  show ?thesis
    using block_duration_multiple_of_60 [OF h, of "run_ok\<lparr> BlockDurationMinutes := 90 \<rparr>"]
      block_duration_multiple_of_60 [OF h, of "run_ok\<lparr> BlockDurationMinutes := 120 \<rparr>"] a b
    by blast
qed

subsection \<open>C1: source\_ami and source\_ami\_filter\<close>

text \<open>
  With a source AMI given, the filter is never read: any filter yields the same errors.
\<close>

lemma source_ami_filter_unread:
  assumes "SourceAmi c \<noteq> ''''"
  shows "snd (RunConfig_Prepare e (c\<lparr> SourceAmiFilter := f \<rparr>)) = snd (RunConfig_Prepare e c)"
proof -
  let ?c = "c\<lparr> SourceAmiFilter := f \<rparr>"
  have k: "Comm (RunConfig_validated e ?c) = Comm (RunConfig_validated e c)"
    by (simp add: RunConfig_validated_update default_temporary_key_pair_update)
  have r: "RunConfig_Comm_errors e ?c = RunConfig_Comm_errors e c"
    "validate_source_ami ?c [] = validate_source_ami c []"
    "validate_source_ami_owner ?c [] = validate_source_ami_owner c []"
    "validate_instance_type_given ?c [] = validate_instance_type_given c []"
    "validate_instance_type_once ?c [] = validate_instance_type_once c []"
    "validate_block_duration ?c [] = validate_block_duration c []"
    "validate_spot_price_auto ?c [] = validate_spot_price_auto c []"
    "validate_spot_price_auto_product ?c [] = validate_spot_price_auto_product c []"
    "validate_spot_tags ?c [] = validate_spot_tags c []"
    "validate_user_data e ?c [] = validate_user_data e c []"
    "snd (prepare_security_group ?c []) = snd (prepare_security_group c [])"
    "snd (prepare_temporary_sg_source_cidrs e ?c []) = snd (prepare_temporary_sg_source_cidrs e c [])"
    "snd (prepare_shutdown_behavior ?c []) = snd (prepare_shutdown_behavior c [])"
    using assms
    by (simp_all add: RunConfig_Comm_errors_def default_temporary_key_pair_update
        RunConfig_rules RunConfig_step_errors)
  have t: "validate_t2_unlimited ?c [] = validate_t2_unlimited c []"
    by (rule validate_t2_unlimited_cong) simp_all
  show ?thesis
    unfolding RunConfig_Prepare_errors r t validate_ssh_cong [OF k]
    by (rule refl)
qed

lemma run_both_sources_simps:
  "SourceAmi run_both_sources \<noteq> ''''"
  "\<not> AmiFilterOptions_Empty (SourceAmiFilter run_both_sources)"
  "run_both_sources = run_ok\<lparr> SourceAmiFilter := SourceAmiFilter run_both_sources \<rparr>"
  "SourceAmi run_ok \<noteq> ''''"
  by (simp_all add: run_both_sources_def run_ok_def AmiFilterOptions_Empty_def)

lemma run_no_source_simps:
  "SourceAmi run_no_source = ''''"
  "AmiFilterOptions_Empty (SourceAmiFilter run_no_source)"
  by (simp_all add: run_no_source_def run_ok_def AmiFilterOptions_Empty_def)

text \<open>
  Claim C1 says that with both \<open>source_ami\<close> and \<open>source_ami_filter\<close> non-empty the returned
  list contains a "mutually exclusive" error naming both fields. \<open>RunConfig.Prepare\<close> has no
  such rule: lines 289--295 only test the filter when \<open>source_ami\<close> is empty. A configuration
  with both set, and otherwise valid, is accepted with no error at all.
\<close>

theorem source_ami_mutually_exclusive_counterexample:
  "SourceAmi run_both_sources \<noteq> '''' \<and>
   \<not> AmiFilterOptions_Empty (SourceAmiFilter run_both_sources) \<and>
   snd (RunConfig_Prepare env_ok run_both_sources) = []"
proof -
  have "snd (RunConfig_Prepare env_ok run_both_sources) = snd (RunConfig_Prepare env_ok run_ok)"
    using source_ami_filter_unread [OF run_both_sources_simps(4), of env_ok "SourceAmiFilter run_both_sources"]
      run_both_sources_simps(3)
    by simp
  then show ?thesis
    using run_ok_errors run_both_sources_simps(1,2) by simp
qed

text \<open>
  Claim C1, amended. When both \<open>source_ami\<close> and \<open>source_ami_filter\<close> are empty, the returned
  list contains the "must be specified" error; when both are non-empty it does not, and no
  error is reported for the pair: the list is the one returned for the same configuration
  with any other filter (the filter is not read once \<open>source_ami\<close> is set); when exactly one
  is non-empty, the list does not contain the "must be specified" error. The hypothesis sets
  aside the errors of the communicator's own \<open>Prepare\<close>.
\<close>

theorem source_ami_rules:
  assumes "\<forall>k. ''A source_ami or source_ami_filter must be specified'' \<notin> set (snd (Comm_Prepare e k))"
  shows "(SourceAmi c = '''' \<and> AmiFilterOptions_Empty (SourceAmiFilter c) \<longrightarrow>
            ''A source_ami or source_ami_filter must be specified''
              \<in> set (snd (RunConfig_Prepare e c))) \<and>
         (SourceAmi c \<noteq> '''' \<and> \<not> AmiFilterOptions_Empty (SourceAmiFilter c) \<longrightarrow>
            ''A source_ami or source_ami_filter must be specified''
              \<notin> set (snd (RunConfig_Prepare e c)) \<and>
            (\<forall>f. snd (RunConfig_Prepare e (c\<lparr> SourceAmiFilter := f \<rparr>)) =
                  snd (RunConfig_Prepare e c))) \<and>
         ((SourceAmi c = '''') \<noteq> AmiFilterOptions_Empty (SourceAmiFilter c) \<longrightarrow>
            ''A source_ami or source_ami_filter must be specified''
              \<notin> set (snd (RunConfig_Prepare e c)))"
  using source_ami_message_mem [OF assms, of c] source_ami_filter_unread [of c e]
  by blast

theorem source_ami_rules_witness:
  "''A source_ami or source_ami_filter must be specified''
     \<in> set (snd (RunConfig_Prepare env_ok run_no_source)) \<and>
   ''A source_ami or source_ami_filter must be specified''
     \<notin> set (snd (RunConfig_Prepare env_ok run_both_sources)) \<and>
   (\<forall>f. snd (RunConfig_Prepare env_ok (run_both_sources\<lparr> SourceAmiFilter := f \<rparr>)) =
         snd (RunConfig_Prepare env_ok run_both_sources)) \<and>
   ''A source_ami or source_ami_filter must be specified''
     \<notin> set (snd (RunConfig_Prepare env_ok run_ok))"
proof -
  have h: "\<forall>k. ''A source_ami or source_ami_filter must be specified''
      \<notin> set (snd (Comm_Prepare env_ok k))"
    by (simp add: env_ok_simps)
  have o: "(SourceAmi run_ok = '''') \<noteq> AmiFilterOptions_Empty (SourceAmiFilter run_ok)"
    by (simp add: run_ok_def AmiFilterOptions_Empty_def)
  show ?thesis
    using source_ami_rules [OF h, of run_no_source] source_ami_rules [OF h, of run_both_sources]
      source_ami_rules [OF h, of run_ok] run_no_source_simps run_both_sources_simps(1,2) o
    by blast
qed

subsection \<open>C10: a single security group id moves into the list\<close>

lemma security_group_message_mem:
  assumes "\<forall>k. ''Only one of security_group_id or security_group_ids can be specified.''
             \<notin> set (snd (Comm_Prepare e k))"
  shows "''Only one of security_group_id or security_group_ids can be specified.''
           \<in> set (snd (RunConfig_Prepare e c)) \<longleftrightarrow>
         SecurityGroupId c \<noteq> '''' \<and> SecurityGroupIds c \<noteq> []"
  using Comm_errors_subset [OF assms, of c]
    mem_validate_ssh_interface
      [of "''Only one of security_group_id or security_group_ids can be specified.''"
          "RunConfig_validated e c"]
    mem_validate_ssh_keypair
      [of "''Only one of security_group_id or security_group_ids can be specified.''"
          "RunConfig_validated e c"]
    mem_prepare_temporary_sg_source_cidrs
      [of "''Only one of security_group_id or security_group_ids can be specified.''" e c]
  by (auto simp add: RunConfig_Prepare_mem mem_rules)

text \<open>
  Claim C10. For every \<open>RunConfig\<close> with a non-empty \<open>SecurityGroupId\<close> and an empty
  \<open>SecurityGroupIds\<close>, after \<open>Prepare\<close> the list is the one-element list of the former id,
  \<open>SecurityGroupId\<close> is empty and the "only one of" error is not in the returned list; that
  error is in the list exactly when both fields were set. The hypothesis sets aside the
  errors of the communicator's own \<open>Prepare\<close>.
\<close>

theorem security_group_id_moves_into_list:
  assumes "\<forall>k. ''Only one of security_group_id or security_group_ids can be specified.''
             \<notin> set (snd (Comm_Prepare e k))"
  shows "(SecurityGroupId c \<noteq> '''' \<and> SecurityGroupIds c = [] \<longrightarrow>
            SecurityGroupIds (fst (RunConfig_Prepare e c)) = [SecurityGroupId c] \<and>
            SecurityGroupId (fst (RunConfig_Prepare e c)) = '''' \<and>
            ''Only one of security_group_id or security_group_ids can be specified.''
              \<notin> set (snd (RunConfig_Prepare e c))) \<and>
         (''Only one of security_group_id or security_group_ids can be specified.''
              \<in> set (snd (RunConfig_Prepare e c)) \<longleftrightarrow>
            SecurityGroupId c \<noteq> '''' \<and> SecurityGroupIds c \<noteq> [])"
proof -
  have f: "SecurityGroupId c \<noteq> '''' \<and> SecurityGroupIds c = [] \<longrightarrow>
      SecurityGroupIds (fst (RunConfig_Prepare e c)) = [SecurityGroupId c] \<and>
      SecurityGroupId (fst (RunConfig_Prepare e c)) = ''''"
    by (simp add: RunConfig_Prepare_config)
  show ?thesis
    using f security_group_message_mem [OF assms, of c] by blast
qed

theorem security_group_id_moves_into_list_witness:
  "SecurityGroupIds (fst (RunConfig_Prepare env_ok (run_ok\<lparr> SecurityGroupId := ''sg-1'' \<rparr>))) =
     [''sg-1''] \<and>
   SecurityGroupId (fst (RunConfig_Prepare env_ok (run_ok\<lparr> SecurityGroupId := ''sg-1'' \<rparr>))) = '''' \<and>
   ''Only one of security_group_id or security_group_ids can be specified.''
     \<notin> set (snd (RunConfig_Prepare env_ok (run_ok\<lparr> SecurityGroupId := ''sg-1'' \<rparr>))) \<and>
   ''Only one of security_group_id or security_group_ids can be specified.''
     \<in> set (snd (RunConfig_Prepare env_ok
         (run_ok\<lparr> SecurityGroupId := ''sg-1'', SecurityGroupIds := [''sg-2''] \<rparr>)))"
proof -
  have h: "\<forall>k. ''Only one of security_group_id or security_group_ids can be specified.''
      \<notin> set (snd (Comm_Prepare env_ok k))"
    by (simp add: env_ok_simps)
  have a: "SecurityGroupId (run_ok\<lparr> SecurityGroupId := ''sg-1'' \<rparr>) = ''sg-1''"
    "SecurityGroupIds (run_ok\<lparr> SecurityGroupId := ''sg-1'' \<rparr>) = []"
    "SecurityGroupId (run_ok\<lparr> SecurityGroupId := ''sg-1'', SecurityGroupIds := [''sg-2''] \<rparr>) = ''sg-1''"
    "SecurityGroupIds (run_ok\<lparr> SecurityGroupId := ''sg-1'', SecurityGroupIds := [''sg-2''] \<rparr>) = [''sg-2'']"
    by (simp_all add: run_ok_def)
  show ?thesis
    using security_group_id_moves_into_list [OF h, of "run_ok\<lparr> SecurityGroupId := ''sg-1'' \<rparr>"]
      security_group_id_moves_into_list
        [OF h, of "run_ok\<lparr> SecurityGroupId := ''sg-1'', SecurityGroupIds := [''sg-2''] \<rparr>"]
    unfolding a by simp
qed

subsection \<open>C2: which violations are reported\<close>

lemma mem_validate_ssh_interface_iff:
  "m \<in> set (validate_ssh_interface c []) \<longleftrightarrow>
   SSHInterface (Comm c) \<noteq> ''public_ip'' \<and> SSHInterface (Comm c) \<noteq> ''private_ip'' \<and>
   SSHInterface (Comm c) \<noteq> ''public_dns'' \<and> SSHInterface (Comm c) \<noteq> ''private_dns'' \<and>
   SSHInterface (Comm c) \<noteq> '''' \<and>
   m = ''Unknown interface type: '' @ SSHInterface (Comm c)"
  by (auto simp add: validate_ssh_interface_def)

lemma mem_validate_ssh_keypair_iff:
  "m \<in> set (validate_ssh_keypair c []) \<longleftrightarrow>
   SSHKeyPairName (Comm c) \<noteq> '''' \<and>
   ((Type (Comm c) = ''winrm'' \<and> WinRMPassword (Comm c) = '''' \<and>
     SSHPrivateKeyFile (Comm c) = '''' \<and>
     m = ''ssh_private_key_file must be provided to retrieve the winrm password when using ssh_keypair_name.'') \<or>
    (\<not> (Type (Comm c) = ''winrm'' \<and> WinRMPassword (Comm c) = '''' \<and>
        SSHPrivateKeyFile (Comm c) = '''') \<and>
     SSHPrivateKeyFile (Comm c) = '''' \<and> \<not> SSHAgentAuth (Comm c) \<and>
     m = ''ssh_private_key_file must be provided or ssh_agent_auth enabled when ssh_keypair_name is specified.''))"
  by (auto simp add: validate_ssh_keypair_def)

lemma ParseCIDR_loop_mem:
  "cidr \<in> set cidrs \<Longrightarrow> net_ParseCIDR e cidr = Some err \<Longrightarrow>
   ''Error parsing CIDR in temporary_security_group_source_cidrs: '' @ err
     \<in> set (ParseCIDR_loop e cidrs [])"
proof (induction cidrs)
  case Nil
  then show ?case by simp
next
  case (Cons x xs)
  have u: "ParseCIDR_loop e (x # xs) [] =
      (case net_ParseCIDR e x of
         Some err \<Rightarrow> [''Error parsing CIDR in temporary_security_group_source_cidrs: '' @ err]
       | None \<Rightarrow> []) @ ParseCIDR_loop e xs []"
    using ParseCIDR_loop_append
      [of e xs "case net_ParseCIDR e x of
         Some err \<Rightarrow> [''Error parsing CIDR in temporary_security_group_source_cidrs: '' @ err]
       | None \<Rightarrow> []"]
    by (simp split: option.splits)
  show ?case
  proof (cases "cidr = x")
    case True
    with Cons.prems show ?thesis unfolding u by simp
  next
    case False
    with Cons show ?thesis unfolding u by simp
  qed
qed

lemma mem_prepare_temporary_sg_source_cidrs_intro:
  "cidr \<in> set (TemporarySGSourceCidrs c) \<Longrightarrow> net_ParseCIDR e cidr = Some err \<Longrightarrow>
   ''Error parsing CIDR in temporary_security_group_source_cidrs: '' @ err
     \<in> set (snd (prepare_temporary_sg_source_cidrs e c []))"
  using ParseCIDR_loop_mem [of cidr "TemporarySGSourceCidrs c" e err]
  by (auto simp add: prepare_temporary_sg_source_cidrs_errors)

lemma Comm_after_Prepare:
  "Comm (fst (RunConfig_Prepare e c)) = Comm (RunConfig_validated e c)"
  by (simp add: RunConfig_Prepare_config RunConfig_validated_update)

lemma BlockDevices_Prepare_length:
  "length (BlockDevices_Prepare bs) =
   length (filter (\<lambda>d. BlockDevice_Prepare d \<noteq> None) (AMIMappings bs @ LaunchMappings bs))"
  by (simp add: BlockDevices_Prepare_append BlockDevices_Prepare_loop_length)

text \<open>
  Claim C2 says that each Prepare function evaluates every one of its rules and returns one
  error per violation, never stopping at the first, so that an input violating two
  independent rules yields both errors. \<open>BlockDevice.Prepare\<close> returns a single \<open>error\<close> and
  leaves at the first rule that fails: a device with an empty \<open>device_name\<close>, a key id and
  encryption switched off violates both of its rules and yields the \<open>device_name\<close> error
  only, also through \<open>BlockDevices.Prepare\<close>.
\<close>

theorem BlockDevice_Prepare_stops_at_first_error_counterexample:
  "DeviceName dev_unnamed_kms_unencrypted = '''' \<and>
   KmsKeyId dev_unnamed_kms_unencrypted \<noteq> '''' \<and>
   Encrypted dev_unnamed_kms_unencrypted = Some False \<and>
   BlockDevice_Prepare dev_unnamed_kms_unencrypted =
     Some ''The `device_name` must be specified for every device in the block device mapping.'' \<and>
   BlockDevices_Prepare \<lparr> AMIMappings = [dev_unnamed_kms_unencrypted], LaunchMappings = [] \<rparr> =
     [''AMIMapping: The `device_name` must be specified for every device in the block device mapping.'']"
  by (simp add: BlockDevices_Prepare_def BlockDevice_Prepare_def example_devices)

text \<open>
  Claim C2, amended. \<open>BlockDevice.Prepare\<close> returns at most one error, that of its first
  failing rule (an empty \<open>device_name\<close> is reported whatever the other fields), and
  \<open>BlockDevices.Prepare\<close> visits every device of both lists and returns exactly one error per
  device that fails. \<open>RunConfig.Prepare\<close> never stops early: its list contains every error
  of the communicator's \<open>Prepare\<close> and, for each of its own rules that is violated, that
  rule's error, so an input violating two of these rules yields both errors. The rules are
  stated with the guards of the source: the two key-pair messages, the two user-data
  messages and the two instance-type messages of the T2 block are alternatives of one
  \<open>if ... else if\<close> each.
\<close>

theorem Prepare_reports_every_violation:
  "(DeviceName d = '''' \<longrightarrow>
      BlockDevice_Prepare d =
        Some ''The `device_name` must be specified for every device in the block device mapping.'') \<and>
   length (BlockDevices_Prepare bs) =
     length (filter (\<lambda>d. BlockDevice_Prepare d \<noteq> None) (AMIMappings bs @ LaunchMappings bs)) \<and>
   set (snd (Comm_Prepare e (Comm (default_temporary_key_pair e c))))
     \<subseteq> set (snd (RunConfig_Prepare e c)) \<and>
   (SSHInterface (Comm (fst (RunConfig_Prepare e c))) \<noteq> ''public_ip'' \<and>
    SSHInterface (Comm (fst (RunConfig_Prepare e c))) \<noteq> ''private_ip'' \<and>
    SSHInterface (Comm (fst (RunConfig_Prepare e c))) \<noteq> ''public_dns'' \<and>
    SSHInterface (Comm (fst (RunConfig_Prepare e c))) \<noteq> ''private_dns'' \<and>
    SSHInterface (Comm (fst (RunConfig_Prepare e c))) \<noteq> '''' \<longrightarrow>
      ''Unknown interface type: '' @ SSHInterface (Comm (fst (RunConfig_Prepare e c)))
        \<in> set (snd (RunConfig_Prepare e c))) \<and>
   (SSHKeyPairName (Comm (fst (RunConfig_Prepare e c))) \<noteq> '''' \<and>
    Type (Comm (fst (RunConfig_Prepare e c))) = ''winrm'' \<and>
    WinRMPassword (Comm (fst (RunConfig_Prepare e c))) = '''' \<and>
    SSHPrivateKeyFile (Comm (fst (RunConfig_Prepare e c))) = '''' \<longrightarrow>
      ''ssh_private_key_file must be provided to retrieve the winrm password when using ssh_keypair_name.''
        \<in> set (snd (RunConfig_Prepare e c))) \<and>
   (SSHKeyPairName (Comm (fst (RunConfig_Prepare e c))) \<noteq> '''' \<and>
    \<not> (Type (Comm (fst (RunConfig_Prepare e c))) = ''winrm'' \<and>
       WinRMPassword (Comm (fst (RunConfig_Prepare e c))) = '''') \<and>
    SSHPrivateKeyFile (Comm (fst (RunConfig_Prepare e c))) = '''' \<and>
    \<not> SSHAgentAuth (Comm (fst (RunConfig_Prepare e c))) \<longrightarrow>
      ''ssh_private_key_file must be provided or ssh_agent_auth enabled when ssh_keypair_name is specified.''
        \<in> set (snd (RunConfig_Prepare e c))) \<and>
   (SourceAmi c = '''' \<and> AmiFilterOptions_Empty (SourceAmiFilter c) \<longrightarrow>
      ''A source_ami or source_ami_filter must be specified'' \<in> set (snd (RunConfig_Prepare e c))) \<and>
   (SourceAmi c = '''' \<and> AmiFilterOptions_NoOwner (SourceAmiFilter c) \<longrightarrow>
      ''For security reasons, your source AMI filter must declare an owner.''
        \<in> set (snd (RunConfig_Prepare e c))) \<and>
   (InstanceType c = '''' \<and> SpotInstanceTypes c = [] \<longrightarrow>
      ''either instance_type or spot_instance_types must be specified''
        \<in> set (snd (RunConfig_Prepare e c))) \<and>
   (InstanceType c \<noteq> '''' \<and> SpotInstanceTypes c \<noteq> [] \<longrightarrow>
      ''either instance_type or spot_instance_types must be specified, not both''
        \<in> set (snd (RunConfig_Prepare e c))) \<and>
   (sint (BlockDurationMinutes c) smod 60 \<noteq> 0 \<longrightarrow>
      ''block_duration_minutes must be multiple of 60'' \<in> set (snd (RunConfig_Prepare e c))) \<and>
   (SpotPrice c = ''auto'' \<and> SpotPriceAutoProduct c = '''' \<longrightarrow>
      ''spot_price_auto_product must be specified when spot_price is auto''
        \<in> set (snd (RunConfig_Prepare e c))) \<and>
   (SpotPriceAutoProduct c \<noteq> '''' \<and> SpotPrice c \<noteq> ''auto'' \<longrightarrow>
      ''spot_price should be set to auto when spot_price_auto_product is specified''
        \<in> set (snd (RunConfig_Prepare e c))) \<and>
   (SpotTags c \<noteq> None \<and> (SpotPrice c = '''' \<or> SpotPrice c = ''0'') \<longrightarrow>
      ''spot_tags should not be set when not requesting a spot instance''
        \<in> set (snd (RunConfig_Prepare e c))) \<and>
   (UserData c \<noteq> '''' \<and> UserDataFile c \<noteq> '''' \<longrightarrow>
      ''Only one of user_data or user_data_file can be specified.''
        \<in> set (snd (RunConfig_Prepare e c))) \<and>
   (UserData c = '''' \<and> UserDataFile c \<noteq> '''' \<and> os_Stat e (UserDataFile c) \<noteq> None \<longrightarrow>
      ''user_data_file not found: '' @ UserDataFile c \<in> set (snd (RunConfig_Prepare e c))) \<and>
   (SecurityGroupId c \<noteq> '''' \<and> SecurityGroupIds c \<noteq> [] \<longrightarrow>
      ''Only one of security_group_id or security_group_ids can be specified.''
        \<in> set (snd (RunConfig_Prepare e c))) \<and>
   (\<forall>cidr err. cidr \<in> set (TemporarySGSourceCidrs c) \<and> net_ParseCIDR e cidr = Some err \<longrightarrow>
      ''Error parsing CIDR in temporary_security_group_source_cidrs: '' @ err
        \<in> set (snd (RunConfig_Prepare e c))) \<and>
   (InstanceInitiatedShutdownBehavior c \<noteq> '''' \<and>
    InstanceInitiatedShutdownBehavior c \<noteq> ''stop'' \<and>
    InstanceInitiatedShutdownBehavior c \<noteq> ''terminate'' \<longrightarrow>
      ''shutdown_behavior only accepts 'stop' or 'terminate' values.''
        \<in> set (snd (RunConfig_Prepare e c))) \<and>
   (EnableT2Unlimited c \<and> SpotPrice c \<noteq> '''' \<longrightarrow>
      ''Error: T2 Unlimited cannot be used in conjuction with Spot Instances''
        \<in> set (snd (RunConfig_Prepare e c))) \<and>
   (EnableT2Unlimited c \<and> strings_Index (InstanceType c) ''.'' = - 1 \<longrightarrow>
      ''Error determining main Instance Type from: '' @ InstanceType c
        \<in> set (snd (RunConfig_Prepare e c))) \<and>
   (EnableT2Unlimited c \<and> strings_Index (InstanceType c) ''.'' \<noteq> - 1 \<and>
    take (nat (strings_Index (InstanceType c) ''.'')) (InstanceType c) \<noteq> ''t2'' \<longrightarrow>
      ''Error: T2 Unlimited enabled with a non-T2 Instance Type: '' @ InstanceType c
        \<in> set (snd (RunConfig_Prepare e c)))"
proof -
  have dev: "DeviceName d = '''' \<longrightarrow>
      BlockDevice_Prepare d =
        Some ''The `device_name` must be specified for every device in the block device mapping.''"
    by (simp add: BlockDevice_Prepare_def)
  have comm: "set (snd (Comm_Prepare e (Comm (default_temporary_key_pair e c))))
      \<subseteq> set (snd (RunConfig_Prepare e c))"
    by (auto simp add: RunConfig_Prepare_mem RunConfig_Comm_errors_def)
  have cidr: "\<forall>cidr err. cidr \<in> set (TemporarySGSourceCidrs c) \<and> net_ParseCIDR e cidr = Some err \<longrightarrow>
      ''Error parsing CIDR in temporary_security_group_source_cidrs: '' @ err
        \<in> set (snd (RunConfig_Prepare e c))"
    using mem_prepare_temporary_sg_source_cidrs_intro [of _ c e]
    unfolding RunConfig_Prepare_mem by blast
  have ssh: "m \<in> set (validate_ssh_interface (RunConfig_validated e c) []) \<Longrightarrow>
      m \<in> set (snd (RunConfig_Prepare e c))"
    "m \<in> set (validate_ssh_keypair (RunConfig_validated e c) []) \<Longrightarrow>
      m \<in> set (snd (RunConfig_Prepare e c))" for m
    by (simp_all add: RunConfig_Prepare_mem)
  have rules: "m \<in> set (validate_source_ami c []) \<or> m \<in> set (validate_source_ami_owner c []) \<or>
      m \<in> set (validate_instance_type_given c []) \<or>
      m \<in> set (validate_instance_type_once c []) \<or>
      m \<in> set (validate_block_duration c []) \<or> m \<in> set (validate_spot_price_auto c []) \<or>
      m \<in> set (validate_spot_price_auto_product c []) \<or> m \<in> set (validate_spot_tags c []) \<or>
      m \<in> set (validate_user_data e c []) \<or>
      m \<in> set (snd (prepare_security_group c [])) \<or>
      m \<in> set (snd (prepare_shutdown_behavior c [])) \<or>
      m \<in> set (validate_t2_unlimited c []) \<Longrightarrow>
      m \<in> set (snd (RunConfig_Prepare e c))" for m
    unfolding RunConfig_Prepare_mem by blast
  show ?thesis
    apply (intro conjI impI)
    subgoal using dev by blast
    subgoal by (rule BlockDevices_Prepare_length)
    subgoal by (rule comm)
    subgoal by (rule ssh(1)) (simp add: mem_validate_ssh_interface_iff Comm_after_Prepare)
    subgoal by (rule ssh(2)) (simp add: mem_validate_ssh_keypair_iff Comm_after_Prepare)
    subgoal by (rule ssh(2)) (auto simp add: mem_validate_ssh_keypair_iff Comm_after_Prepare)
    subgoal by (rule rules) (simp add: mem_rules)
    subgoal by (rule rules) (simp add: mem_rules)
    subgoal by (rule rules) (simp add: mem_rules)
    subgoal by (rule rules) (simp add: mem_rules)
    subgoal by (rule rules) (simp add: mem_rules)
    subgoal by (rule rules) (simp add: mem_rules)
    subgoal by (rule rules) (simp add: mem_rules)
    subgoal by (rule rules) (simp add: mem_rules)
    subgoal by (rule rules) (simp add: mem_rules)
    subgoal by (rule rules) (simp add: mem_rules)
    subgoal by (rule rules) (simp add: mem_rules)
    subgoal using cidr by blast
    subgoal by (rule rules) (simp add: mem_rules reShutdownBehavior_MatchString_def)
    subgoal by (rule rules) (simp add: mem_rules)
    subgoal by (rule rules) (simp add: mem_rules)
    subgoal by (rule rules) (simp add: mem_rules)
    done
qed

lemma run_many_violations_simps:
  "Comm (fst (RunConfig_Prepare env_ok run_many_violations)) =
     comm_ok\<lparr> SSHInterface := ''serial'', SSHKeyPairName := ''key'', Type := ''winrm'' \<rparr>"
  "SourceAmi run_many_violations = ''''"
  "AmiFilterOptions_Empty (SourceAmiFilter run_many_violations)"
  "AmiFilterOptions_NoOwner (SourceAmiFilter run_many_violations)"
  "InstanceType run_many_violations = ''''"
  "SpotInstanceTypes run_many_violations = []"
  "BlockDurationMinutes run_many_violations = 90"
  "SpotPrice run_many_violations = ''auto''"
  "SpotPriceAutoProduct run_many_violations = ''''"
  "UserData run_many_violations = ''#!/bin/sh''"
  "UserDataFile run_many_violations = ''/tmp/user-data''"
  "SecurityGroupId run_many_violations = ''sg-1''"
  "SecurityGroupIds run_many_violations = [''sg-2'']"
  "TemporarySGSourceCidrs run_many_violations = [''10.0.0.0/8'', ''bogus'']"
  "InstanceInitiatedShutdownBehavior run_many_violations = ''halt''"
  "EnableT2Unlimited run_many_violations"
  by (simp_all add: Comm_after_Prepare Comm_validated_env_ok default_temporary_key_pair_update
      run_many_violations_def run_ok_def comm_ok_def AmiFilterOptions_Empty_def
      AmiFilterOptions_NoOwner_def)

lemma run_other_violations_simps:
  "Comm (fst (RunConfig_Prepare env_ok run_other_violations)) =
     comm_ok\<lparr> SSHKeyPairName := ''key'' \<rparr>"
  "InstanceType run_other_violations = ''m3.medium''"
  "SpotInstanceTypes run_other_violations = [''c4.large'']"
  "SpotPrice run_other_violations = ''''"
  "SpotPriceAutoProduct run_other_violations = ''Linux/UNIX''"
  "SpotTags run_other_violations = Some Map.empty"
  "UserData run_other_violations = ''''"
  "UserDataFile run_other_violations = ''/nonexistent''"
  "EnableT2Unlimited run_other_violations"
  by (simp_all add: Comm_after_Prepare Comm_validated_env_ok default_temporary_key_pair_update
      run_other_violations_def run_ok_def comm_ok_def)

theorem Prepare_reports_every_violation_witness:
  "BlockDevice_Prepare dev_unnamed_kms_unencrypted =
     Some ''The `device_name` must be specified for every device in the block device mapping.'' \<and>
   ''Unknown interface type: serial'' \<in> set (snd (RunConfig_Prepare env_ok run_many_violations)) \<and>
   ''ssh_private_key_file must be provided to retrieve the winrm password when using ssh_keypair_name.''
     \<in> set (snd (RunConfig_Prepare env_ok run_many_violations)) \<and>
   ''A source_ami or source_ami_filter must be specified''
     \<in> set (snd (RunConfig_Prepare env_ok run_many_violations)) \<and>
   ''For security reasons, your source AMI filter must declare an owner.''
     \<in> set (snd (RunConfig_Prepare env_ok run_many_violations)) \<and>
   ''either instance_type or spot_instance_types must be specified''
     \<in> set (snd (RunConfig_Prepare env_ok run_many_violations)) \<and>
   ''block_duration_minutes must be multiple of 60''
     \<in> set (snd (RunConfig_Prepare env_ok run_many_violations)) \<and>
   ''spot_price_auto_product must be specified when spot_price is auto''
     \<in> set (snd (RunConfig_Prepare env_ok run_many_violations)) \<and>
   ''Only one of user_data or user_data_file can be specified.''
     \<in> set (snd (RunConfig_Prepare env_ok run_many_violations)) \<and>
   ''Only one of security_group_id or security_group_ids can be specified.''
     \<in> set (snd (RunConfig_Prepare env_ok run_many_violations)) \<and>
   ''Error parsing CIDR in temporary_security_group_source_cidrs: invalid CIDR address: bogus''
     \<in> set (snd (RunConfig_Prepare env_ok run_many_violations)) \<and>
   ''shutdown_behavior only accepts 'stop' or 'terminate' values.''
     \<in> set (snd (RunConfig_Prepare env_ok run_many_violations)) \<and>
   ''Error: T2 Unlimited cannot be used in conjuction with Spot Instances''
     \<in> set (snd (RunConfig_Prepare env_ok run_many_violations)) \<and>
   ''Error determining main Instance Type from: ''
     \<in> set (snd (RunConfig_Prepare env_ok run_many_violations)) \<and>
   ''ssh_private_key_file must be provided or ssh_agent_auth enabled when ssh_keypair_name is specified.''
     \<in> set (snd (RunConfig_Prepare env_ok run_other_violations)) \<and>
   ''either instance_type or spot_instance_types must be specified, not both''
     \<in> set (snd (RunConfig_Prepare env_ok run_other_violations)) \<and>
   ''spot_price should be set to auto when spot_price_auto_product is specified''
     \<in> set (snd (RunConfig_Prepare env_ok run_other_violations)) \<and>
   ''spot_tags should not be set when not requesting a spot instance''
     \<in> set (snd (RunConfig_Prepare env_ok run_other_violations)) \<and>
   ''user_data_file not found: /nonexistent''
     \<in> set (snd (RunConfig_Prepare env_ok run_other_violations)) \<and>
   ''Error: T2 Unlimited enabled with a non-T2 Instance Type: m3.medium''
     \<in> set (snd (RunConfig_Prepare env_ok run_other_violations))"
proof -
  have d: "DeviceName dev_unnamed_kms_unencrypted = ''''"
    by (simp add: example_devices)
  have i: "strings_Index '''' ''.'' = - 1" "strings_Index ''m3.medium'' ''.'' = 2"
    by simp_all
  note a = Prepare_reports_every_violation
      [where d = dev_unnamed_kms_unencrypted and e = env_ok and c = run_many_violations
         and bs = "\<lparr> AMIMappings = [], LaunchMappings = [] \<rparr>"]
  note b = Prepare_reports_every_violation
      [where d = dev_unnamed_kms_unencrypted and e = env_ok and c = run_other_violations
         and bs = "\<lparr> AMIMappings = [], LaunchMappings = [] \<rparr>"]
  note s = i d run_many_violations_simps run_other_violations_simps comm_ok_def env_ok_simps
    signed_modulo_int_def
  note w0 = a [THEN conjunct1]
  note w1 = a [THEN conjunct2, THEN conjunct2, THEN conjunct2, THEN conjunct1]
  note w2 = a [THEN conjunct2, THEN conjunct2, THEN conjunct2, THEN conjunct2, THEN conjunct1]
  note w3 = a [THEN conjunct2, THEN conjunct2, THEN conjunct2, THEN conjunct2, THEN conjunct2, THEN conjunct2, THEN conjunct1]
  note w4 = a [THEN conjunct2, THEN conjunct2, THEN conjunct2, THEN conjunct2, THEN conjunct2, THEN conjunct2, THEN conjunct2, THEN conjunct1]
  note w5 = a [THEN conjunct2, THEN conjunct2, THEN conjunct2, THEN conjunct2, THEN conjunct2, THEN conjunct2, THEN conjunct2, THEN conjunct2, THEN conjunct1]
  note w6 = a [THEN conjunct2, THEN conjunct2, THEN conjunct2, THEN conjunct2, THEN conjunct2, THEN conjunct2, THEN conjunct2, THEN conjunct2, THEN conjunct2, THEN conjunct2, THEN conjunct1]
  note w7 = a [THEN conjunct2, THEN conjunct2, THEN conjunct2, THEN conjunct2, THEN conjunct2, THEN conjunct2, THEN conjunct2, THEN conjunct2, THEN conjunct2, THEN conjunct2, THEN conjunct2, THEN conjunct1]
  note w8 = a [THEN conjunct2, THEN conjunct2, THEN conjunct2, THEN conjunct2, THEN conjunct2, THEN conjunct2, THEN conjunct2, THEN conjunct2, THEN conjunct2, THEN conjunct2, THEN conjunct2, THEN conjunct2, THEN conjunct2, THEN conjunct2, THEN conjunct1]
  note w9 = a [THEN conjunct2, THEN conjunct2, THEN conjunct2, THEN conjunct2, THEN conjunct2, THEN conjunct2, THEN conjunct2, THEN conjunct2, THEN conjunct2, THEN conjunct2, THEN conjunct2, THEN conjunct2, THEN conjunct2, THEN conjunct2, THEN conjunct2, THEN conjunct2, THEN conjunct1]
  note w10 = a [THEN conjunct2, THEN conjunct2, THEN conjunct2, THEN conjunct2, THEN conjunct2, THEN conjunct2, THEN conjunct2, THEN conjunct2, THEN conjunct2, THEN conjunct2, THEN conjunct2, THEN conjunct2, THEN conjunct2, THEN conjunct2, THEN conjunct2, THEN conjunct2, THEN conjunct2, THEN conjunct1]
  note w11 = a [THEN conjunct2, THEN conjunct2, THEN conjunct2, THEN conjunct2, THEN conjunct2, THEN conjunct2, THEN conjunct2, THEN conjunct2, THEN conjunct2, THEN conjunct2, THEN conjunct2, THEN conjunct2, THEN conjunct2, THEN conjunct2, THEN conjunct2, THEN conjunct2, THEN conjunct2, THEN conjunct2, THEN conjunct1]
  note w12 = a [THEN conjunct2, THEN conjunct2, THEN conjunct2, THEN conjunct2, THEN conjunct2, THEN conjunct2, THEN conjunct2, THEN conjunct2, THEN conjunct2, THEN conjunct2, THEN conjunct2, THEN conjunct2, THEN conjunct2, THEN conjunct2, THEN conjunct2, THEN conjunct2, THEN conjunct2, THEN conjunct2, THEN conjunct2, THEN conjunct1]
  note w13 = a [THEN conjunct2, THEN conjunct2, THEN conjunct2, THEN conjunct2, THEN conjunct2, THEN conjunct2, THEN conjunct2, THEN conjunct2, THEN conjunct2, THEN conjunct2, THEN conjunct2, THEN conjunct2, THEN conjunct2, THEN conjunct2, THEN conjunct2, THEN conjunct2, THEN conjunct2, THEN conjunct2, THEN conjunct2, THEN conjunct2, THEN conjunct1]
  note w14 = b [THEN conjunct2, THEN conjunct2, THEN conjunct2, THEN conjunct2, THEN conjunct2, THEN conjunct1]
  note w15 = b [THEN conjunct2, THEN conjunct2, THEN conjunct2, THEN conjunct2, THEN conjunct2, THEN conjunct2, THEN conjunct2, THEN conjunct2, THEN conjunct2, THEN conjunct1]
  note w16 = b [THEN conjunct2, THEN conjunct2, THEN conjunct2, THEN conjunct2, THEN conjunct2, THEN conjunct2, THEN conjunct2, THEN conjunct2, THEN conjunct2, THEN conjunct2, THEN conjunct2, THEN conjunct2, THEN conjunct1]
  note w17 = b [THEN conjunct2, THEN conjunct2, THEN conjunct2, THEN conjunct2, THEN conjunct2, THEN conjunct2, THEN conjunct2, THEN conjunct2, THEN conjunct2, THEN conjunct2, THEN conjunct2, THEN conjunct2, THEN conjunct2, THEN conjunct1]
  note w18 = b [THEN conjunct2, THEN conjunct2, THEN conjunct2, THEN conjunct2, THEN conjunct2, THEN conjunct2, THEN conjunct2, THEN conjunct2, THEN conjunct2, THEN conjunct2, THEN conjunct2, THEN conjunct2, THEN conjunct2, THEN conjunct2, THEN conjunct2, THEN conjunct1]
  note w19 = b [THEN conjunct2, THEN conjunct2, THEN conjunct2, THEN conjunct2, THEN conjunct2, THEN conjunct2, THEN conjunct2, THEN conjunct2, THEN conjunct2, THEN conjunct2, THEN conjunct2, THEN conjunct2, THEN conjunct2, THEN conjunct2, THEN conjunct2, THEN conjunct2, THEN conjunct2, THEN conjunct2, THEN conjunct2, THEN conjunct2, THEN conjunct2]
  show ?thesis
    apply (intro conjI)
    subgoal using w0 by (simp add: s)
    subgoal using w1 by (simp add: s)
    subgoal using w2 by (simp add: s)
    subgoal using w3 by (simp add: s)
    subgoal using w4 by (simp add: s)
    subgoal using w5 by (simp add: s)
    subgoal using w6 by (simp add: s)
    subgoal using w7 by (simp add: s)
    subgoal using w8 by (simp add: s)
    subgoal using w9 by (simp add: s)
    subgoal using w10 [rule_format, of "''bogus''" "''invalid CIDR address: bogus''"] by (simp add: s)
    subgoal using w11 by (simp add: s)
    subgoal using w12 by (simp add: s)
    subgoal using w13 by (simp add: s)
    subgoal using w14 by (simp add: s)
    subgoal using w15 by (simp add: s)
    subgoal using w16 by (simp add: s)
    subgoal using w17 by (simp add: s)
    subgoal using w18 by (simp add: s)
    subgoal using w19 by (simp add: s)
    done
qed

subsection \<open>C4: a missing source file is reported\<close>

lemma MultiErrorAppend_Some:
  "MultiErrorAppend h (Some p) es = (h\<lparr> Errors := (Errors h)(p := Errors h p @ es) \<rparr>, Some p)"
  by (simp add: MultiErrorAppend_def)

lemma MultiErrorAppend_pointer:
  "\<exists>h' p. MultiErrorAppend h errs es = (h', Some p)"
  by (simp add: MultiErrorAppend_def Let_def case_prod_beta)

lemma MultiErrorAppend_each_Some:
  "\<exists>h'. MultiErrorAppend_each h (Some p) ess = (h', Some p)"
proof (induction ess arbitrary: h)
  case Nil
  show ?case by simp
next
  case (Cons es ess)
  show ?case
    using Cons.IH [of "h\<lparr> Errors := (Errors h)(p := Errors h p @ es) \<rparr>"]
    by (simp add: MultiErrorAppend_Some)
qed

lemma MultiErrorAppend_each_pointer:
  assumes "ess \<noteq> []"
  shows "\<exists>h' p. MultiErrorAppend_each h errs ess = (h', Some p)"
proof -
  from assms obtain es ess' where ess: "ess = es # ess'"
    by (cases ess) simp_all
  obtain h1 p where a: "MultiErrorAppend h errs es = (h1, Some p)"
    using MultiErrorAppend_pointer by blast
  obtain h2 where "MultiErrorAppend_each h1 (Some p) ess' = (h2, Some p)"
    using MultiErrorAppend_each_Some by blast
  with a show ?thesis unfolding ess by simp
qed

lemma NewConfig_defaults_SourcePath: "SourcePath (NewConfig_defaults v c) = SourcePath c"
  by (simp add: NewConfig_defaults_def Let_def)

lemma check_source_path_missing:
  assumes "ovf_os_Stat v (SourcePath c) = Some err"
  shows "\<exists>h'. check_source_path v c h (Some p) = (h', Some p) \<and>
           ''Source file '' @ [CHR 0x27] @ SourcePath c @ [CHR 0x27] @
           '' needs to exist at time of config validation! '' @ err \<in> set (Errors h' p)"
  using assms
  by (simp add: check_source_path_def MultiErrorAppend_Some Let_def)

lemma check_guest_additions_mode_keeps:
  "\<exists>h'. check_guest_additions_mode v c h (Some p) = (h', Some p) \<and>
         set (Errors h p) \<subseteq> set (Errors h' p)"
  by (auto simp add: check_guest_additions_mode_def MultiErrorAppend_Some Let_def)

text \<open>
  Claim C4. For the VirtualBox OVF builder, when \<open>source_path\<close> names a file that
  \<open>os.Stat\<close> does not find at validation time, \<open>NewConfig\<close> fails: it returns no
  configuration and an error whose list contains the message naming the missing source file.
  The call that records the message drops the pointer \<open>MultiErrorAppend\<close> returns, but by then
  \<open>errs\<close> points to an allocated object (the source has appended the results of thirteen
  \<open>Prepare\<close> calls; the second hypothesis asks for at least one), and the append is made in
  that object.
\<close>

theorem NewConfig_reports_missing_source_file:
  assumes "config_Decode v raws = Inr c"
    and "snd (embedded_Prepare v (embedded (NewConfig_defaults v c))) \<noteq> []"
    and "ovf_os_Stat v (SourcePath c) = Some err"
  shows "\<exists>warnings errs. NewConfig v raws = (None, warnings, Some (MultiError errs)) \<and>
           ''Source file '' @ [CHR 0x27] @ SourcePath c @ [CHR 0x27] @
           '' needs to exist at time of config validation! '' @ err \<in> set errs"
proof -
  let ?m = "''Source file '' @ [CHR 0x27] @ SourcePath c @ [CHR 0x27] @
           '' needs to exist at time of config validation! '' @ err"
  define c4 where "c4 = NewConfig_defaults v c"
  define c7 where "c7 = c4\<lparr> embedded := fst (embedded_Prepare v (embedded c4)),
      ChecksumType := strings_ToLower v (ChecksumType c4),
      Checksum := strings_ToLower v (Checksum c4) \<rparr>"
  have sp: "SourcePath c7 = SourcePath c"
    by (simp add: c7_def c4_def NewConfig_defaults_SourcePath)
  obtain h1 p where e: "MultiErrorAppend_each \<lparr> next_addr = 0, Errors = (\<lambda>_. []) \<rparr> None
      (snd (embedded_Prepare v (embedded c4))) = (h1, Some p)"
    using MultiErrorAppend_each_pointer [OF assms(2)] unfolding c4_def by blast
  obtain h3 where s: "check_source_path v c7 h1 (Some p) = (h3, Some p)"
    and m3: "?m \<in> set (Errors h3 p)"
    using check_source_path_missing [of v c7 err h1 p] assms(3) unfolding sp by blast
  obtain h4 where g: "check_guest_additions_mode v c7 h3 (Some p) = (h4, Some p)"
    and m4: "set (Errors h3 p) \<subseteq> set (Errors h4 p)"
    using check_guest_additions_mode_keeps [of v c7 h3 p] by blast
  from m3 m4 have m: "?m \<in> set (Errors h4 p)" by blast
  then have n: "Errors h4 p \<noteq> []" by auto
  have c7': "c4\<lparr> embedded := fst (embedded_Prepare v (embedded c4)),
      ChecksumType := strings_ToLower v (ChecksumType c4),
      Checksum := strings_ToLower v (Checksum c4) \<rparr> = c7"
    by (simp add: c7_def)
  have "NewConfig v raws =
      (None,
       (if embedded_ShutdownCommand v (embedded c7) = ''''
        then [''A shutdown_command was not specified. Without a shutdown command, Packer\<newline>'' @
              ''will forcibly halt the virtual machine, which may result in data loss.'']
        else []),
       Some (MultiError (Errors h4 p)))"
    unfolding NewConfig_def assms(1) sum.case Let_def case_prod_beta c4_def [symmetric]
    using n by (simp add: c7' e s g if_distrib [of embedded])
  with m show ?thesis by blast
qed

theorem NewConfig_reports_missing_source_file_witness:
  "\<exists>warnings errs. NewConfig ovf_env_missing () = (None, warnings, Some (MultiError errs)) \<and>
     ''Source file '/i/dont/exist.ovf' needs to exist at time of config validation! stat /i/dont/exist.ovf: no such file or directory''
       \<in> set errs"
proof -
  have a: "config_Decode ovf_env_missing () = Inr ovf_config_missing"
    by (simp add: ovf_env_missing_def)
  have b: "snd (embedded_Prepare ovf_env_missing
      (embedded (NewConfig_defaults ovf_env_missing ovf_config_missing))) \<noteq> []"
    by (simp add: ovf_env_missing_def)
  have c: "ovf_os_Stat ovf_env_missing (SourcePath ovf_config_missing) =
      Some ''stat /i/dont/exist.ovf: no such file or directory''"
    by (simp add: ovf_env_missing_def ovf_config_missing_def)
  have p: "SourcePath ovf_config_missing = ''/i/dont/exist.ovf''"
    by (simp add: ovf_config_missing_def)
  show ?thesis
    using NewConfig_reports_missing_source_file [OF a b c] unfolding p by simp
qed

subsection \<open>C8: preparing a prepared configuration changes nothing\<close>

lemma ShutdownConfig_Prepare_again:
  "ShutdownConfig_Prepare pd (fst (ShutdownConfig_Prepare pd s)) = ShutdownConfig_Prepare pd s"
  by (cases "pd ''5m''"; cases "pd (RawShutdownTimeout s)")
     (simp_all add: ShutdownConfig_Prepare_def Let_def)

lemma rules_on_prepared:
  "validate_source_ami (fst (RunConfig_Prepare e c)) [] = validate_source_ami c []"
  "validate_source_ami_owner (fst (RunConfig_Prepare e c)) [] = validate_source_ami_owner c []"
  "validate_instance_type_given (fst (RunConfig_Prepare e c)) [] = validate_instance_type_given c []"
  "validate_instance_type_once (fst (RunConfig_Prepare e c)) [] = validate_instance_type_once c []"
  "validate_block_duration (fst (RunConfig_Prepare e c)) [] = validate_block_duration c []"
  "validate_spot_price_auto (fst (RunConfig_Prepare e c)) [] = validate_spot_price_auto c []"
  "validate_spot_price_auto_product (fst (RunConfig_Prepare e c)) [] =
     validate_spot_price_auto_product c []"
  "validate_spot_tags (fst (RunConfig_Prepare e c)) [] = validate_spot_tags c []"
  "validate_user_data e (fst (RunConfig_Prepare e c)) [] = validate_user_data e c []"
  by (simp_all add: RunConfig_Prepare_config RunConfig_rules)

lemma t2_on_prepared:
  "validate_t2_unlimited (fst (RunConfig_Prepare e c)) [] = validate_t2_unlimited c []"
  by (rule validate_t2_unlimited_cong) (simp_all add: RunConfig_Prepare_config)

lemma prepared_fields:
  "WindowsPasswordTimeout (fst (RunConfig_Prepare e c)) \<noteq> 0"
  "RunTags (fst (RunConfig_Prepare e c)) \<noteq> None"
  "Comm (fst (RunConfig_Prepare e c)) = fst (Comm_Prepare e (Comm (default_temporary_key_pair e c)))"
  "TemporarySGSourceCidrs (fst (RunConfig_Prepare e c)) \<noteq> []"
  "TemporarySGSourceCidrs (fst (RunConfig_Prepare e c)) =
     (if TemporarySGSourceCidrs c = [] then [''0.0.0.0/0''] else TemporarySGSourceCidrs c)"
  "InstanceInitiatedShutdownBehavior (fst (RunConfig_Prepare e c)) =
     (if InstanceInitiatedShutdownBehavior c = '''' then ''stop''
      else InstanceInitiatedShutdownBehavior c)"
  "SecurityGroupId (fst (RunConfig_Prepare e c)) =
     (if SecurityGroupId c \<noteq> '''' \<and> SecurityGroupIds c = [] then '''' else SecurityGroupId c)"
  by (simp_all add: RunConfig_Prepare_config)

lemma default_temporary_key_pair_set:
  "\<not> (SSHKeyPairName (Comm (default_temporary_key_pair e c)) = '''' \<and>
      SSHTemporaryKeyPairName (Comm (default_temporary_key_pair e c)) = '''' \<and>
      SSHPrivateKeyFile (Comm (default_temporary_key_pair e c)) = '''' \<and>
      SSHPassword (Comm (default_temporary_key_pair e c)) = '''')"
  by (simp add: default_temporary_key_pair_update)

lemma default_temporary_key_pair_unchanged:
  "\<not> (SSHKeyPairName (Comm c) = '''' \<and> SSHTemporaryKeyPairName (Comm c) = '''' \<and>
      SSHPrivateKeyFile (Comm c) = '''' \<and> SSHPassword (Comm c) = '''') \<Longrightarrow>
   default_temporary_key_pair e c = c"
  by (auto simp add: default_temporary_key_pair_def)

lemma RunConfig_Prepare_fixed:
  assumes k: "default_temporary_key_pair e c = c"
    and w: "WindowsPasswordTimeout c \<noteq> 0" and r: "RunTags c \<noteq> None"
    and p: "Comm_Prepare e (Comm c) = (Comm c, [])"
    and g: "SecurityGroupId c = ''''"
    and t: "TemporarySGSourceCidrs c \<noteq> []"
    and s: "InstanceInitiatedShutdownBehavior c \<noteq> ''''"
  shows "fst (RunConfig_Prepare e c) = c" and "RunConfig_validated e c = c"
    and "RunConfig_Comm_errors e c = []"
  using assms
  by (simp_all add: RunConfig_Prepare_config RunConfig_validated_update RunConfig_Comm_errors_def)

text \<open>
  A second run of \<open>RunConfig.Prepare\<close> on the configuration a first, successful run left:
  every defaulting block finds its field set, the single security group id has already moved,
  and every rule reads what it read before.
\<close>

lemma RunConfig_Prepare_again:
  assumes idem: "\<forall>k. snd (Comm_Prepare e k) = [] \<longrightarrow>
      Comm_Prepare e (fst (Comm_Prepare e k)) = (fst (Comm_Prepare e k), [])"
    and keep: "\<forall>k. \<not> (SSHKeyPairName k = '''' \<and> SSHTemporaryKeyPairName k = '''' \<and>
        SSHPrivateKeyFile k = '''' \<and> SSHPassword k = '''') \<longrightarrow>
      \<not> (SSHKeyPairName (fst (Comm_Prepare e k)) = '''' \<and>
         SSHTemporaryKeyPairName (fst (Comm_Prepare e k)) = '''' \<and>
         SSHPrivateKeyFile (fst (Comm_Prepare e k)) = '''' \<and>
         SSHPassword (fst (Comm_Prepare e k)) = '''')"
    and any: "net_ParseCIDR e ''0.0.0.0/0'' = None"
    and ok: "snd (RunConfig_Prepare e c) = []"
  shows "RunConfig_Prepare e (fst (RunConfig_Prepare e c)) = (fst (RunConfig_Prepare e c), [])"
proof -
  define c1 where "c1 = fst (RunConfig_Prepare e c)"
  note f = prepared_fields [of e c, folded c1_def]
  from ok have parts:
    "RunConfig_Comm_errors e c = []"
    "validate_ssh_interface (RunConfig_validated e c) [] = []"
    "validate_ssh_keypair (RunConfig_validated e c) [] = []"
    "validate_source_ami c [] = []" "validate_source_ami_owner c [] = []"
    "validate_instance_type_given c [] = []" "validate_instance_type_once c [] = []"
    "validate_block_duration c [] = []" "validate_spot_price_auto c [] = []"
    "validate_spot_price_auto_product c [] = []" "validate_spot_tags c [] = []"
    "validate_user_data e c [] = []"
    "snd (prepare_security_group c []) = []"
    "snd (prepare_temporary_sg_source_cidrs e c []) = []"
    "snd (prepare_shutdown_behavior c []) = []"
    "validate_t2_unlimited c [] = []"
    unfolding RunConfig_Prepare_errors append_is_Nil_conv by blast+
  have comm0: "snd (Comm_Prepare e (Comm (default_temporary_key_pair e c))) = []"
    using parts(1) by (simp add: RunConfig_Comm_errors_def)
  have k: "default_temporary_key_pair e c1 = c1"
    using keep [rule_format, OF default_temporary_key_pair_set [of e c]]
    by (intro default_temporary_key_pair_unchanged) (simp add: f(3))
  have p: "Comm_Prepare e (Comm c1) = (Comm c1, [])"
    using idem [rule_format, OF comm0] by (simp add: f(3))
  have g: "SecurityGroupId c1 = ''''"
    using parts(13) by (auto simp add: f(7) prepare_security_group_errors split: if_splits)
  have s: "InstanceInitiatedShutdownBehavior c1 \<noteq> ''''"
    by (simp add: f(6))
  have fixed: "fst (RunConfig_Prepare e c1) = c1" "RunConfig_validated e c1 = c1"
    "RunConfig_Comm_errors e c1 = []"
    by (rule RunConfig_Prepare_fixed [OF k f(1) f(2) p g f(4) s])+
  have v: "Comm (RunConfig_validated e c) = Comm c1"
    by (simp add: RunConfig_validated_update f(3))
  have ssh: "validate_ssh_interface c1 [] = []" "validate_ssh_keypair c1 [] = []"
    using parts(2,3) validate_ssh_cong [OF v] by simp_all
  have sg: "snd (prepare_security_group c1 []) = []"
    by (simp add: prepare_security_group_errors g)
  have loop0: "ParseCIDR_loop e [''0.0.0.0/0''] [] = []"
    by (simp add: any)
  have cidrs: "snd (prepare_temporary_sg_source_cidrs e c1 []) = []"
    using parts(14) loop0
    by (simp add: prepare_temporary_sg_source_cidrs_errors f(5) split: if_splits)
  have shut: "snd (prepare_shutdown_behavior c1 []) = []"
    using parts(15)
    by (auto simp add: prepare_shutdown_behavior_errors f(6) reShutdownBehavior_MatchString_def
        split: if_splits)
  have "snd (RunConfig_Prepare e c1) = []"
    unfolding RunConfig_Prepare_errors fixed(2,3) ssh sg cidrs shut
      rules_on_prepared [of e c, folded c1_def] t2_on_prepared [of e c, folded c1_def] parts
    by simp
  with fixed(1) show ?thesis
    unfolding c1_def [symmetric] by (simp add: prod_eq_iff)
qed

text \<open>
  Claim C8. For every configuration on which \<open>Prepare\<close> returned an empty error list,
  running the same \<open>Prepare\<close> again on the resulting configuration leaves every field
  unchanged and again returns an empty list; this for \<open>RunConfig.Prepare\<close> and for
  \<open>ShutdownConfig.Prepare\<close>. Both runs see the same surroundings (the same \<open>os.Stat\<close>,
  \<open>net.ParseCIDR\<close> and \<open>time.ParseDuration\<close>). The hypotheses are about what
  \<open>RunConfig.Prepare\<close> calls in other packages: the communicator's own \<open>Prepare\<close> is itself
  idempotent once it succeeded and does not blank the four key-pair and password fields, and
  \<open>net.ParseCIDR\<close> accepts the default block "0.0.0.0/0" that the first run fills in.
\<close>

theorem Prepare_idempotent:
  assumes "\<forall>k. snd (Comm_Prepare e k) = [] \<longrightarrow>
      Comm_Prepare e (fst (Comm_Prepare e k)) = (fst (Comm_Prepare e k), [])"
    and "\<forall>k. \<not> (SSHKeyPairName k = '''' \<and> SSHTemporaryKeyPairName k = '''' \<and>
        SSHPrivateKeyFile k = '''' \<and> SSHPassword k = '''') \<longrightarrow>
      \<not> (SSHKeyPairName (fst (Comm_Prepare e k)) = '''' \<and>
         SSHTemporaryKeyPairName (fst (Comm_Prepare e k)) = '''' \<and>
         SSHPrivateKeyFile (fst (Comm_Prepare e k)) = '''' \<and>
         SSHPassword (fst (Comm_Prepare e k)) = '''')"
    and "net_ParseCIDR e ''0.0.0.0/0'' = None"
  shows "(snd (RunConfig_Prepare e c) = [] \<longrightarrow>
            RunConfig_Prepare e (fst (RunConfig_Prepare e c)) = (fst (RunConfig_Prepare e c), [])) \<and>
         (snd (ShutdownConfig_Prepare time_ParseDuration s) = [] \<longrightarrow>
            ShutdownConfig_Prepare time_ParseDuration
              (fst (ShutdownConfig_Prepare time_ParseDuration s)) =
            (fst (ShutdownConfig_Prepare time_ParseDuration s), []))"
  using RunConfig_Prepare_again [OF assms, of c]
    ShutdownConfig_Prepare_again [of time_ParseDuration s]
  by (simp add: prod_eq_iff)

theorem Prepare_idempotent_witness:
  "RunConfig_Prepare env_ok (fst (RunConfig_Prepare env_ok run_ok)) =
     (fst (RunConfig_Prepare env_ok run_ok), []) \<and>
   ShutdownConfig_Prepare parse_duration_ok
     (fst (ShutdownConfig_Prepare parse_duration_ok shutdown_omitted)) =
     (fst (ShutdownConfig_Prepare parse_duration_ok shutdown_omitted), []) \<and>
   ShutdownTimeout (fst (ShutdownConfig_Prepare parse_duration_ok shutdown_omitted)) = 300000000000"
proof -
  have a: "\<forall>k. snd (Comm_Prepare env_ok k) = [] \<longrightarrow>
      Comm_Prepare env_ok (fst (Comm_Prepare env_ok k)) = (fst (Comm_Prepare env_ok k), [])"
    by (simp add: env_ok_simps)
  have b: "\<forall>k. \<not> (SSHKeyPairName k = '''' \<and> SSHTemporaryKeyPairName k = '''' \<and>
        SSHPrivateKeyFile k = '''' \<and> SSHPassword k = '''') \<longrightarrow>
      \<not> (SSHKeyPairName (fst (Comm_Prepare env_ok k)) = '''' \<and>
         SSHTemporaryKeyPairName (fst (Comm_Prepare env_ok k)) = '''' \<and>
         SSHPrivateKeyFile (fst (Comm_Prepare env_ok k)) = '''' \<and>
         SSHPassword (fst (Comm_Prepare env_ok k)) = '''')"
    by (simp add: env_ok_simps)
  have c: "net_ParseCIDR env_ok ''0.0.0.0/0'' = None"
    by (simp add: env_ok_simps)
  have s: "snd (ShutdownConfig_Prepare parse_duration_ok shutdown_omitted) = []"
    and t: "ShutdownTimeout (fst (ShutdownConfig_Prepare parse_duration_ok shutdown_omitted)) =
      300000000000"
    by (simp_all add: ShutdownConfig_Prepare_def shutdown_omitted_def parse_duration_ok_def)
  show ?thesis
    using Prepare_idempotent [OF a b c, of run_ok parse_duration_ok shutdown_omitted]
      run_ok_errors s t
    by blast
qed

end
